theory Spec2Isabelle
  imports Complex_Main
begin

section \<open>Layer model\<close>

text \<open>
  The data model of the photobooth editor (the interfaces of the types module).
  A JavaScript \<open>number\<close> is modelled as a real: the geometry below is the exact
  arithmetic that the floating point code approximates, and \<open>NaN\<close> and the
  infinities are outside the model, as is a division by zero, which yields one of
  them in JavaScript. Field names carry a prefix of their record,
  since several interfaces share the names \<open>x\<close>, \<open>y\<close>, \<open>width\<close>, \<open>height\<close>
  and \<open>rotation\<close>.
\<close>

record transform =
  tr_x :: real
  tr_y :: real
  tr_width :: real
  tr_height :: real
  tr_rotation :: real

record crop =
  crop_x :: real
  crop_y :: real
  crop_scale :: real

datatype fit_mode = Cover | Contain

record photo =
  photo_src :: string
  photo_transform :: transform
  photo_crop :: crop
  originalWidth :: real
  originalHeight :: real
  photo_fit :: "fit_mode option"

record sticker_layer =
  st_id :: string
  st_src :: string
  st_x :: real
  st_y :: real
  st_width :: real
  st_height :: real
  st_rotation :: real

record text_layer =
  tx_id :: string
  tx_text :: string
  tx_x :: real
  tx_y :: real
  fontSize :: real
  fontFamily :: string
  tx_color :: string
  tx_rotation :: real
  fontWeight :: string

text \<open>\<open>Partial<Photo>\<close>, \<open>Partial<StickerLayer>\<close> and \<open>Partial<TextLayer>\<close>: an absent
  field is \<open>None\<close>.\<close>

record photo_updates =
  pu_src :: "string option"
  pu_transform :: "transform option"
  pu_crop :: "crop option"
  pu_originalWidth :: "real option"
  pu_originalHeight :: "real option"
  pu_fit :: "fit_mode option"

record sticker_updates =
  su_id :: "string option"
  su_src :: "string option"
  su_x :: "real option"
  su_y :: "real option"
  su_width :: "real option"
  su_height :: "real option"
  su_rotation :: "real option"

record text_updates =
  tu_id :: "string option"
  tu_text :: "string option"
  tu_x :: "real option"
  tu_y :: "real option"
  tu_fontSize :: "real option"
  tu_fontFamily :: "string option"
  tu_color :: "string option"
  tu_rotation :: "real option"
  tu_fontWeight :: "string option"

definition no_photo_updates :: photo_updates where
  "no_photo_updates = \<lparr>pu_src = None, pu_transform = None, pu_crop = None,
     pu_originalWidth = None, pu_originalHeight = None, pu_fit = None\<rparr>"

definition no_sticker_updates :: sticker_updates where
  "no_sticker_updates = \<lparr>su_id = None, su_src = None, su_x = None, su_y = None,
     su_width = None, su_height = None, su_rotation = None\<rparr>"

definition no_text_updates :: text_updates where
  "no_text_updates = \<lparr>tu_id = None, tu_text = None, tu_x = None, tu_y = None,
     tu_fontSize = None, tu_fontFamily = None, tu_color = None, tu_rotation = None,
     tu_fontWeight = None\<rparr>"

text \<open>The object spread \<open>{ ...layer, ...updates }\<close>: a field of the update wins
  where it is present.\<close>

definition spread_photo :: "photo \<Rightarrow> photo_updates \<Rightarrow> photo" where
  "spread_photo p u =
     \<lparr>photo_src = (case pu_src u of None \<Rightarrow> photo_src p | Some v \<Rightarrow> v),
      photo_transform = (case pu_transform u of None \<Rightarrow> photo_transform p | Some v \<Rightarrow> v),
      photo_crop = (case pu_crop u of None \<Rightarrow> photo_crop p | Some v \<Rightarrow> v),
      originalWidth = (case pu_originalWidth u of None \<Rightarrow> originalWidth p | Some v \<Rightarrow> v),
      originalHeight = (case pu_originalHeight u of None \<Rightarrow> originalHeight p | Some v \<Rightarrow> v),
      photo_fit = (case pu_fit u of None \<Rightarrow> photo_fit p | Some v \<Rightarrow> Some v)\<rparr>"

definition spread_sticker :: "sticker_layer \<Rightarrow> sticker_updates \<Rightarrow> sticker_layer" where
  "spread_sticker s u =
     \<lparr>st_id = (case su_id u of None \<Rightarrow> st_id s | Some v \<Rightarrow> v),
      st_src = (case su_src u of None \<Rightarrow> st_src s | Some v \<Rightarrow> v),
      st_x = (case su_x u of None \<Rightarrow> st_x s | Some v \<Rightarrow> v),
      st_y = (case su_y u of None \<Rightarrow> st_y s | Some v \<Rightarrow> v),
      st_width = (case su_width u of None \<Rightarrow> st_width s | Some v \<Rightarrow> v),
      st_height = (case su_height u of None \<Rightarrow> st_height s | Some v \<Rightarrow> v),
      st_rotation = (case su_rotation u of None \<Rightarrow> st_rotation s | Some v \<Rightarrow> v)\<rparr>"


section \<open>The canvas editor\<close>

subsection \<open>Editor state\<close>

datatype interaction_mode =
  Idle | Crop_panning | Rotating | Moving_layer | Scaling_layer | Drawing

datatype layer_type = L_photo | L_sticker | L_text | L_drawing

text \<open>The canvas element as the handlers read it: its pixel size, and whether
  \<open>getContext('2d')\<close> gives a context.\<close>

record canvas =
  cv_width :: real
  cv_height :: real
  cv_context :: bool

record point =
  pt_x :: real
  pt_y :: real

text \<open>
  The props and refs of the editor component that the handlers read. \<open>photos\<close>,
  \<open>stickers\<close> and \<open>textLayers\<close> are the transient layer arrays; \<open>canvasRef\<close> is
  \<open>None\<close> when the ref holds no element; \<open>onDrawStart\<close> and \<open>onDrawPoint\<close> say whether
  the optional callback was passed. \<open>measureText\<close> stands for the browser's
  \<open>ctx.measureText(t.text).width\<close> under the font of the layer on that canvas.
\<close>

record editor =
  photos :: "photo list"
  stickers :: "sticker_layer list"
  textLayers :: "text_layer list"
  selectedLayerType :: layer_type
  selectedLayerIndex :: int
  globalPhotoScale :: real
  isDrawingMode :: bool
  onDrawStart :: bool
  onDrawPoint :: bool
  canvasRef :: "canvas option"
  devicePixelRatio :: real
  measureText :: "canvas \<Rightarrow> text_layer \<Rightarrow> real"

text \<open>The gesture-start snapshot \<open>interaction.current.startVal\<close> (typed \<open>any\<close>).\<close>

datatype start_val = S_null | S_photo photo | S_sticker sticker_layer | S_text text_layer

record interaction =
  mode :: interaction_mode
  startX :: real
  startY :: real
  startVal :: start_val
  startAngle :: real
  startDist :: "real option"

definition ROTATION_HANDLE_OFFSET :: real where "ROTATION_HANDLE_OFFSET = 25"
definition ROTATION_HANDLE_SIZE :: real where "ROTATION_HANDLE_SIZE = 8"
definition SCALE_HANDLE_SIZE :: real where "SCALE_HANDLE_SIZE = 8"

subsection \<open>Geometry\<close>

definition hypot :: "real \<Rightarrow> real \<Rightarrow> real" where
  "hypot a b = sqrt (a * a + b * b)"

text \<open>\<open>Math.atan2(y, x)\<close> on reals, with \<open>atan2(0, 0) = 0\<close>.\<close>

definition atan2 :: "real \<Rightarrow> real \<Rightarrow> real" where
  "atan2 y x =
     (if 0 < x then arctan (y / x)
      else if x < 0 \<and> 0 \<le> y then arctan (y / x) + pi
      else if x < 0 then arctan (y / x) - pi
      else if 0 < y then pi / 2
      else if y < 0 then - (pi / 2)
      else 0)"

text \<open>\<open>window.devicePixelRatio || 1\<close>.\<close>

definition dpr :: "editor \<Rightarrow> real" where
  "dpr ed = (if devicePixelRatio ed = 0 then 1 else devicePixelRatio ed)"

record abs_rect =
  ab_x :: real
  ab_y :: real
  ab_width :: real
  ab_height :: real

definition toAbsolute :: "transform \<Rightarrow> canvas \<Rightarrow> abs_rect" where
  "toAbsolute t cv =
     \<lparr>ab_x = tr_x t * cv_width cv, ab_y = tr_y t * cv_height cv,
      ab_width = tr_width t * cv_width cv, ab_height = tr_height t * cv_height cv\<rparr>"

text \<open>
  The pointer in the unrotated frame of a layer centred at \<open>(cx, cy)\<close>: the two
  lines \<open>localX = \<dots>\<close>, \<open>localY = \<dots>\<close> that every loop of \<open>getHit\<close> repeats, with
  \<open>angle\<close> in radians.
\<close>

definition localX :: "point \<Rightarrow> real \<Rightarrow> real \<Rightarrow> real \<Rightarrow> real" where
  "localX mouse cx cy angle =
     (pt_x mouse - cx) * cos (- angle) - (pt_y mouse - cy) * sin (- angle)"

definition localY :: "point \<Rightarrow> real \<Rightarrow> real \<Rightarrow> real \<Rightarrow> real" where
  "localY mouse cx cy angle =
     (pt_x mouse - cx) * sin (- angle) + (pt_y mouse - cy) * cos (- angle)"

subsection \<open>Hit testing\<close>

datatype hit_type = H_rotate | H_scale | H_move

text \<open>The object \<open>{ type, layerType, index }\<close> that \<open>getHit\<close> returns.\<close>

datatype hit = Hit hit_type layer_type nat




text \<open>The body of the text loop of \<open>getHit\<close> at index \<open>i\<close>, layer \<open>t\<close>.\<close>

definition hit_text :: "editor \<Rightarrow> canvas \<Rightarrow> point \<Rightarrow> nat \<Rightarrow> text_layer \<Rightarrow> hit option" where
  "hit_text ed cv mouse i t =
     (let cx = tx_x t * cv_width cv;
          cy = tx_y t * cv_height cv;
          fontSizePx = fontSize t * cv_height cv;
          w = measureText ed cv t + 10;
          h = fontSizePx + 10;
          angle = tx_rotation t * pi / 180;
          lx = localX mouse cx cy angle;
          ly = localY mouse cx cy angle;
          selected = (selectedLayerType ed = L_text \<and> selectedLayerIndex ed = int i);
          handleY = - h / 2 - ROTATION_HANDLE_OFFSET * dpr ed
      in if selected \<and> hypot lx (ly - handleY) < ROTATION_HANDLE_SIZE * dpr ed * 1.5
           then Some (Hit H_rotate L_text i)
         else if selected \<and> hypot (lx - w / 2) (ly - h / 2) < SCALE_HANDLE_SIZE * dpr ed * 2
           then Some (Hit H_scale L_text i)
         else if \<bar>lx\<bar> < w / 2 \<and> \<bar>ly\<bar> < h / 2 then Some (Hit H_move L_text i)
         else None)"

definition hit_sticker :: "editor \<Rightarrow> canvas \<Rightarrow> point \<Rightarrow> nat \<Rightarrow> sticker_layer \<Rightarrow> hit option" where
  "hit_sticker ed cv mouse i s =
     (let cx = st_x s * cv_width cv;
          cy = st_y s * cv_height cv;
          w = st_width s * cv_width cv;
          h = st_height s * cv_height cv;
          angle = st_rotation s * pi / 180;
          lx = localX mouse cx cy angle;
          ly = localY mouse cx cy angle;
          selected = (selectedLayerType ed = L_sticker \<and> selectedLayerIndex ed = int i);
          handleY = - h / 2 - 5 - ROTATION_HANDLE_OFFSET * dpr ed
      in if selected \<and> hypot lx (ly - handleY) < ROTATION_HANDLE_SIZE * dpr ed * 1.5
           then Some (Hit H_rotate L_sticker i)
         else if selected \<and>
                 hypot (lx - w / 2 - 5) (ly - h / 2 - 5) < SCALE_HANDLE_SIZE * dpr ed * 2
           then Some (Hit H_scale L_sticker i)
         else if \<bar>lx\<bar> < w / 2 \<and> \<bar>ly\<bar> < h / 2 then Some (Hit H_move L_sticker i)
         else None)"

definition hit_photo :: "editor \<Rightarrow> canvas \<Rightarrow> point \<Rightarrow> nat \<Rightarrow> photo \<Rightarrow> hit option" where
  "hit_photo ed cv mouse i p =
     (let a = toAbsolute (photo_transform p) cv;
          width = ab_width a * globalPhotoScale ed;
          height = ab_height a * globalPhotoScale ed;
          angle = tr_rotation (photo_transform p) * pi / 180;
          lx = localX mouse (ab_x a) (ab_y a) angle;
          ly = localY mouse (ab_x a) (ab_y a) angle;
          selected = (selectedLayerType ed = L_photo \<and> selectedLayerIndex ed = int i);
          handleCenterY = - height / 2 - ROTATION_HANDLE_OFFSET * dpr ed
      in if selected \<and> hypot lx (ly - handleCenterY) < ROTATION_HANDLE_SIZE * dpr ed * 1.5
           then Some (Hit H_rotate L_photo i)
         else if \<bar>lx\<bar> < width / 2 \<and> \<bar>ly\<bar> < height / 2 then Some (Hit H_move L_photo i)
         else None)"

text \<open>
  The three loops \<open>for (let i = length - 1; i >= 0; i--)\<close>: the counter \<open>Suc i\<close>
  stands for the loop at index \<open>i\<close>, and a loop is entered with the length of its
  array, so every read \<open>xs ! i\<close> is in range.
\<close>

fun text_loop :: "editor \<Rightarrow> canvas \<Rightarrow> point \<Rightarrow> nat \<Rightarrow> hit option" where
  "text_loop ed cv mouse 0 = None"
| "text_loop ed cv mouse (Suc i) =
     (case hit_text ed cv mouse i (textLayers ed ! i) of
        Some h \<Rightarrow> Some h
      | None \<Rightarrow> text_loop ed cv mouse i)"

fun sticker_loop :: "editor \<Rightarrow> canvas \<Rightarrow> point \<Rightarrow> nat \<Rightarrow> hit option" where
  "sticker_loop ed cv mouse 0 = None"
| "sticker_loop ed cv mouse (Suc i) =
     (case hit_sticker ed cv mouse i (stickers ed ! i) of
        Some h \<Rightarrow> Some h
      | None \<Rightarrow> sticker_loop ed cv mouse i)"

fun photo_loop :: "editor \<Rightarrow> canvas \<Rightarrow> point \<Rightarrow> nat \<Rightarrow> hit option" where
  "photo_loop ed cv mouse 0 = None"
| "photo_loop ed cv mouse (Suc i) =
     (case hit_photo ed cv mouse i (photos ed ! i) of
        Some h \<Rightarrow> Some h
      | None \<Rightarrow> photo_loop ed cv mouse i)"

definition getHit :: "editor \<Rightarrow> point \<Rightarrow> hit option" where
  "getHit ed mouse =
     (if isDrawingMode ed then None
      else (case canvasRef ed of
        None \<Rightarrow> None
      | Some cv \<Rightarrow>
          (if \<not> cv_context cv then None
           else (case text_loop ed cv mouse (length (textLayers ed)) of
             Some h \<Rightarrow> Some h
           | None \<Rightarrow>
               (case sticker_loop ed cv mouse (length (stickers ed)) of
                  Some h \<Rightarrow> Some h
                | None \<Rightarrow> photo_loop ed cv mouse (length (photos ed)))))))"

subsection \<open>Pointer down\<close>

text \<open>
  What \<open>handleStart\<close> does: the \<open>onSelectLayer\<close> call it makes (if any), whether it
  calls \<open>onDrawStart\<close>, and the interaction ref afterwards.
\<close>

record start_result =
  sr_select :: "(layer_type \<times> int) option"
  sr_drawStart :: bool
  sr_interaction :: interaction

text \<open>\<open>JSON.parse(JSON.stringify(layers[hit.index]))\<close>: a deep copy, which is the
  value itself here. The index comes from a loop of \<open>getHit\<close>, so it is in range.\<close>

definition snapshot :: "editor \<Rightarrow> layer_type \<Rightarrow> nat \<Rightarrow> start_val" where
  "snapshot ed lt i =
     (if lt = L_photo then S_photo (photos ed ! i)
      else if lt = L_sticker then S_sticker (stickers ed ! i)
      else if lt = L_text then S_text (textLayers ed ! i)
      else S_null)"

text \<open>
  The centre and rotation that the \<open>rotate\<close> branch reads off the snapshot: through
  \<open>toAbsolute\<close> for a photo, from \<open>x\<close>, \<open>y\<close>, \<open>rotation\<close> otherwise. \<open>None\<close> where the
  snapshot has no such fields (no hit produces one).
\<close>

definition rotate_centre :: "layer_type \<Rightarrow> start_val \<Rightarrow> canvas \<Rightarrow> (real \<times> real \<times> real) option" where
  "rotate_centre lt sv cv =
     (if lt = L_photo then
        (case sv of
           S_photo p \<Rightarrow>
             Some (ab_x (toAbsolute (photo_transform p) cv),
                   ab_y (toAbsolute (photo_transform p) cv),
                   tr_rotation (photo_transform p))
         | _ \<Rightarrow> None)
      else
        (case sv of
           S_sticker s \<Rightarrow> Some (st_x s * cv_width cv, st_y s * cv_height cv, st_rotation s)
         | S_text t \<Rightarrow> Some (tx_x t * cv_width cv, tx_y t * cv_height cv, tx_rotation t)
         | _ \<Rightarrow> None))"

text \<open>The centre that the \<open>scale\<close> branch reads off the snapshot (a sticker's or a
  text layer's \<open>x\<close>, \<open>y\<close>).\<close>

definition scale_centre :: "start_val \<Rightarrow> canvas \<Rightarrow> (real \<times> real) option" where
  "scale_centre sv cv =
     (case sv of
        S_sticker s \<Rightarrow> Some (st_x s * cv_width cv, st_y s * cv_height cv)
      | S_text t \<Rightarrow> Some (tx_x t * cv_width cv, tx_y t * cv_height cv)
      | _ \<Rightarrow> None)"

text \<open>
  \<open>handleStart\<close>, given the pointer position \<open>mouse\<close> in canvas pixels. The result is
  \<open>None\<close> where the handler would throw on \<open>canvasRef.current!\<close> or on a snapshot
  without the fields it reads; neither happens after a hit.
\<close>

definition handleStart :: "editor \<Rightarrow> interaction \<Rightarrow> point \<Rightarrow> start_result option" where
  "handleStart ed ia mouse =
     (if isDrawingMode ed \<and> onDrawStart ed then
        Some \<lparr>sr_select = None, sr_drawStart = True, sr_interaction = ia\<lparr>mode := Drawing\<rparr>\<rparr>
      else
        (let ia1 = ia\<lparr>startX := pt_x mouse, startY := pt_y mouse\<rparr> in
         case getHit ed mouse of
           None \<Rightarrow>
             Some \<lparr>sr_select = (if \<not> isDrawingMode ed then Some (L_photo, - 1) else None),
                   sr_drawStart = False,
                   sr_interaction = ia1\<lparr>mode := Idle\<rparr>\<rparr>
         | Some (Hit ty lt i) \<Rightarrow>
             (let startObject = snapshot ed lt i;
                  ia2 = ia1\<lparr>startVal := startObject\<rparr>;
                  finish = (\<lambda>ia'. Some \<lparr>sr_select = Some (lt, int i), sr_drawStart = False,
                                        sr_interaction = ia'\<rparr>)
              in case ty of
                   H_rotate \<Rightarrow>
                     (case canvasRef ed of
                        None \<Rightarrow> None
                      | Some cv \<Rightarrow>
                          (case rotate_centre lt startObject cv of
                             None \<Rightarrow> None
                           | Some (cx, cy, currentRot) \<Rightarrow>
                               finish (ia2\<lparr>mode := Rotating,
                                         startAngle := atan2 (pt_y mouse - cy) (pt_x mouse - cx)
                                                       - currentRot * pi / 180\<rparr>)))
                 | H_scale \<Rightarrow>
                     (case canvasRef ed of
                        None \<Rightarrow> None
                      | Some cv \<Rightarrow>
                          (case scale_centre startObject cv of
                             None \<Rightarrow> None
                           | Some (cx, cy) \<Rightarrow>
                               finish (ia2\<lparr>mode := Scaling_layer,
                                         startDist := Some (hypot (pt_x mouse - cx)
                                                                  (pt_y mouse - cy))\<rparr>)))
                 | H_move \<Rightarrow>
                     (if lt = L_photo then finish (ia2\<lparr>mode := Crop_panning\<rparr>)
                      else finish (ia2\<lparr>mode := Moving_layer\<rparr>)))))"

subsection \<open>Pointer move\<close>

text \<open>
  What \<open>handleMove\<close> asks of its parent: nothing (only the cursor changes), a
  drawing point, or one of the three update callbacks with the selected index.
  \<open>Cast_mismatch\<close> stands for a branch that casts the snapshot to a layer type it
  does not have, where the JavaScript computes with \<open>undefined\<close> fields or throws;
  \<open>handleStart\<close> stores a snapshot of the layer it selects, so the branches below
  are taken with the snapshot they expect.
\<close>

datatype move_effect =
    No_update
  | Draw_point point
  | Photo_update int photo_updates
  | Sticker_update int sticker_updates
  | Text_update int text_updates
  | Cast_mismatch

text \<open>The \<open>crop_panning\<close> branch: the new crop of the photo snapshot \<open>start\<close>.\<close>

definition crop_panning :: "real \<Rightarrow> interaction \<Rightarrow> photo \<Rightarrow> point \<Rightarrow> crop" where
  "crop_panning gps ia start mouse =
     (let angle = tr_rotation (photo_transform start) * pi / 180;
          dx = pt_x mouse - startX ia;
          dy = pt_y mouse - startY ia;
          localDx = dx * cos (- angle) - dy * sin (- angle);
          localDy = dx * sin (- angle) + dy * cos (- angle);
          scaleFactor = 1 / (gps * crop_scale (photo_crop start))
      in (photo_crop start)\<lparr>crop_x := crop_x (photo_crop start) - localDx * scaleFactor,
                              crop_y := crop_y (photo_crop start) - localDy * scaleFactor\<rparr>)"

text \<open>\<open>interaction.current.startDist || 1\<close>: an unset or zero distance reads as 1.\<close>

definition startDist_or_1 :: "interaction \<Rightarrow> real" where
  "startDist_or_1 ia = (case startDist ia of None \<Rightarrow> 1 | Some d \<Rightarrow> if d = 0 then 1 else d)"

text \<open>The \<open>scaling_layer\<close> branch for a sticker and for a text layer: the update
  object passed to the parent.\<close>

definition scaling_sticker :: "canvas \<Rightarrow> interaction \<Rightarrow> sticker_layer \<Rightarrow> point \<Rightarrow> sticker_updates" where
  "scaling_sticker cv ia start mouse =
     (let cx = st_x start * cv_width cv;
          cy = st_y start * cv_height cv;
          currentDist = hypot (pt_x mouse - cx) (pt_y mouse - cy);
          scaleFactor = currentDist / startDist_or_1 ia;
          ratio = st_width start / st_height start;
          newW = max 0.02 (st_width start * scaleFactor)
      in no_sticker_updates\<lparr>su_width := Some newW, su_height := Some (newW / ratio)\<rparr>)"

definition scaling_text :: "canvas \<Rightarrow> interaction \<Rightarrow> text_layer \<Rightarrow> point \<Rightarrow> text_updates" where
  "scaling_text cv ia start mouse =
     (let cx = tx_x start * cv_width cv;
          cy = tx_y start * cv_height cv;
          currentDist = hypot (pt_x mouse - cx) (pt_y mouse - cy);
          scaleFactor = currentDist / startDist_or_1 ia;
          newSize = max 0.02 (fontSize start * scaleFactor)
      in no_text_updates\<lparr>tu_fontSize := Some newSize\<rparr>)"

text \<open>The \<open>rotating\<close> branch: the new rotation in degrees about the centre \<open>(cx, cy)\<close>.\<close>

definition rotating_deg :: "interaction \<Rightarrow> real \<Rightarrow> real \<Rightarrow> point \<Rightarrow> real" where
  "rotating_deg ia cx cy mouse =
     (atan2 (pt_y mouse - cy) (pt_x mouse - cx) - startAngle ia) * 180 / pi"

text \<open>
  \<open>handleMove\<close>, given the pointer in canvas pixels (\<open>mouse\<close>) and in normalized
  coordinates (\<open>normPos\<close>). In the photo case of \<open>rotating\<close> the handler reads
  \<open>transientPhotos.current[selectedLayerIndex].transform\<close>, which throws when the
  index is out of range: that is \<open>Cast_mismatch\<close> too.
\<close>

definition handleMove :: "editor \<Rightarrow> interaction \<Rightarrow> point \<Rightarrow> point \<Rightarrow> move_effect" where
  "handleMove ed ia mouse normPos =
     (if isDrawingMode ed \<and> mode ia = Drawing \<and> onDrawPoint ed then Draw_point normPos
      else if isDrawingMode ed then No_update
      else (case canvasRef ed of
        None \<Rightarrow> No_update
      | Some cv \<Rightarrow>
          (case mode ia of
             Idle \<Rightarrow> No_update
           | Crop_panning \<Rightarrow>
               (case startVal ia of
                  S_photo start \<Rightarrow>
                    Photo_update (selectedLayerIndex ed)
                      (no_photo_updates\<lparr>pu_crop :=
                         Some (crop_panning (globalPhotoScale ed) ia start mouse)\<rparr>)
                | _ \<Rightarrow> Cast_mismatch)
           | Rotating \<Rightarrow>
               (if selectedLayerType ed = L_photo then
                  (case startVal ia of
                     S_photo start \<Rightarrow>
                       (let a = toAbsolute (photo_transform start) cv;
                            deg = rotating_deg ia (ab_x a) (ab_y a) mouse
                        in if 0 \<le> selectedLayerIndex ed
                              \<and> nat (selectedLayerIndex ed) < length (photos ed)
                           then Photo_update (selectedLayerIndex ed)
                                  (no_photo_updates\<lparr>pu_transform :=
                                     Some ((photo_transform
                                              (photos ed ! nat (selectedLayerIndex ed)))
                                           \<lparr>tr_rotation := deg\<rparr>)\<rparr>)
                           else Cast_mismatch)
                   | _ \<Rightarrow> Cast_mismatch)
                else if selectedLayerType ed = L_sticker then
                  (case startVal ia of
                     S_sticker s \<Rightarrow>
                       Sticker_update (selectedLayerIndex ed)
                         (no_sticker_updates\<lparr>su_rotation :=
                            Some (rotating_deg ia (st_x s * cv_width cv)
                                    (st_y s * cv_height cv) mouse)\<rparr>)
                   | _ \<Rightarrow> Cast_mismatch)
                else
                  (case startVal ia of
                     S_text t \<Rightarrow>
                       Text_update (selectedLayerIndex ed)
                         (no_text_updates\<lparr>tu_rotation :=
                            Some (rotating_deg ia (tx_x t * cv_width cv)
                                    (tx_y t * cv_height cv) mouse)\<rparr>)
                   | _ \<Rightarrow> Cast_mismatch))
           | Moving_layer \<Rightarrow>
               (let dx = (pt_x mouse - startX ia) / cv_width cv;
                    dy = (pt_y mouse - startY ia) / cv_height cv
                in if selectedLayerType ed = L_sticker then
                     (case startVal ia of
                        S_sticker start \<Rightarrow>
                          Sticker_update (selectedLayerIndex ed)
                            (no_sticker_updates\<lparr>su_x := Some (st_x start + dx),
                                                  su_y := Some (st_y start + dy)\<rparr>)
                      | _ \<Rightarrow> Cast_mismatch)
                   else if selectedLayerType ed = L_text then
                     (case startVal ia of
                        S_text start \<Rightarrow>
                          Text_update (selectedLayerIndex ed)
                            (no_text_updates\<lparr>tu_x := Some (tx_x start + dx),
                                               tu_y := Some (tx_y start + dy)\<rparr>)
                      | _ \<Rightarrow> Cast_mismatch)
                   else No_update)
           | Scaling_layer \<Rightarrow>
               (if selectedLayerType ed = L_sticker then
                  (case startVal ia of
                     S_sticker start \<Rightarrow>
                       Sticker_update (selectedLayerIndex ed) (scaling_sticker cv ia start mouse)
                   | _ \<Rightarrow> Cast_mismatch)
                else if selectedLayerType ed = L_text then
                  (case startVal ia of
                     S_text start \<Rightarrow>
                       Text_update (selectedLayerIndex ed) (scaling_text cv ia start mouse)
                   | _ \<Rightarrow> Cast_mismatch)
                else No_update)
           | Drawing \<Rightarrow> No_update)))"

subsection \<open>Gestures as the operator applies them\<close>






subsection \<open>The geometry primitive of the specification\<close>


subsection \<open>Hit testing as the specification words it\<close>














subsection \<open>The selection overlays of the preview draw routine\<close>

text \<open>
  Step 7 of \<open>draw\<close>, the only step that reads the selection, as the list of canvas
  operations it issues. Steps 1 to 6 (background, photos, frame, drawings, stickers,
  text, placeholder outlines) iterate over the layer arrays and never index them by
  the selection. \<open>primaryColor\<close> and \<open>primaryRgb\<close> are the two theme values read
  from the computed style.
\<close>

datatype draw_op =
    Save
  | Restore
  | Translate real real
  | Rotate real
  | Set_strokeStyle string
  | Set_fillStyle string
  | Set_lineWidth real
  | Set_lineDash "real list"
  | Set_font string real string
  | StrokeRect real real real real
  | BeginPath
  | MoveTo real real
  | LineTo real real
  | Arc real real real real real
  | Stroke
  | Fill

datatype js_error = TypeError

text \<open>\<open>xs[i]\<close> on an array read with a number: \<open>undefined\<close> (here \<open>None\<close>) unless
  \<open>i\<close> is an index of the array.\<close>

definition js_nth :: "'a list \<Rightarrow> int \<Rightarrow> 'a option" where
  "js_nth xs i = (if 0 \<le> i \<and> nat i < length xs then Some (xs ! nat i) else None)"

text \<open>The affordances of a selected photo, and of a selected sticker or text layer
  with centre \<open>(x, y)\<close>, size \<open>w \<times> h\<close> and rotation in degrees.\<close>

definition photo_overlay :: "editor \<Rightarrow> string \<Rightarrow> string \<Rightarrow> canvas \<Rightarrow> photo \<Rightarrow> draw_op list" where
  "photo_overlay ed primaryColor primaryRgb cv photo =
     (let a = toAbsolute (photo_transform photo) cv;
          width = ab_width a * globalPhotoScale ed;
          height = ab_height a * globalPhotoScale ed;
          angle = tr_rotation (photo_transform photo) * pi / 180;
          handleY = - height / 2 - ROTATION_HANDLE_OFFSET * dpr ed
      in [Save, Translate (ab_x a) (ab_y a), Rotate angle,
          Set_strokeStyle (''rgba('' @ primaryRgb @ '', 0.9)''),
          Set_lineWidth (2 * dpr ed),
          StrokeRect (- width / 2) (- height / 2) width height,
          BeginPath, MoveTo 0 (- height / 2), LineTo 0 handleY,
          Set_strokeStyle ''rgba(255, 255, 255, 0.8)'',
          Set_lineWidth (1.5 * dpr ed), Stroke,
          BeginPath, Arc 0 handleY (ROTATION_HANDLE_SIZE * dpr ed) 0 (pi * 2),
          Set_fillStyle primaryColor, Fill, Restore])"

definition layer_overlay :: "editor \<Rightarrow> string \<Rightarrow> string \<Rightarrow> real \<Rightarrow> real \<Rightarrow> real \<Rightarrow> real \<Rightarrow> real \<Rightarrow> draw_op list" where
  "layer_overlay ed primaryColor primaryRgb x y w h rotation =
     (let handleY = - h / 2 - 5 - ROTATION_HANDLE_OFFSET * dpr ed
      in [Save, Translate x y, Rotate (rotation * pi / 180),
          Set_strokeStyle (''rgba('' @ primaryRgb @ '', 0.9)''),
          Set_lineWidth (2 * dpr ed), Set_lineDash [5, 5],
          StrokeRect (- w / 2 - 5) (- h / 2 - 5) (w + 10) (h + 10),
          Set_lineDash [],
          BeginPath, MoveTo 0 (- h / 2 - 5), LineTo 0 handleY, Stroke,
          BeginPath, Arc 0 handleY (ROTATION_HANDLE_SIZE * dpr ed) 0 (pi * 2),
          Set_fillStyle primaryColor, Fill]
         @ (if selectedLayerType ed = L_sticker \<or> selectedLayerType ed = L_text then
              [BeginPath, Arc (w / 2 + 5) (h / 2 + 5) (SCALE_HANDLE_SIZE * dpr ed) 0 (pi * 2),
               Set_fillStyle ''white'',
               Set_strokeStyle (''rgba('' @ primaryRgb @ '', 1)''), Fill, Stroke]
            else [])
         @ [Restore])"

text \<open>
  \<open>draw_selection\<close> follows the source: each guard tests
  \<open>layers[selectedLayerIndex]\<close> for truthiness, and the branch then reads the same
  element again and takes its fields, which would throw a \<open>TypeError\<close> on
  \<open>undefined\<close>. The result is the operations issued, or the error thrown.
\<close>

definition draw_selection :: "editor \<Rightarrow> string \<Rightarrow> string \<Rightarrow> canvas \<Rightarrow> js_error + draw_op list" where
  "draw_selection ed primaryColor primaryRgb cv =
     (if isDrawingMode ed then Inr []
      else
        (let photoPart =
               (if selectedLayerType ed = L_photo \<and> selectedLayerIndex ed \<noteq> - 1
                   \<and> js_nth (photos ed) (selectedLayerIndex ed) \<noteq> None
                then (case js_nth (photos ed) (selectedLayerIndex ed) of
                        None \<Rightarrow> Inl TypeError
                      | Some photo \<Rightarrow> Inr (photo_overlay ed primaryColor primaryRgb cv photo))
                else Inr []);
             otherPart =
               (if selectedLayerType ed \<noteq> L_photo \<and> selectedLayerIndex ed \<noteq> - 1 then
                  (if selectedLayerType ed = L_sticker
                      \<and> js_nth (stickers ed) (selectedLayerIndex ed) \<noteq> None
                   then (case js_nth (stickers ed) (selectedLayerIndex ed) of
                           None \<Rightarrow> Inl TypeError
                         | Some s \<Rightarrow>
                             (let w = st_width s * cv_width cv
                              in Inr (if 0 < w
                                      then layer_overlay ed primaryColor primaryRgb
                                             (st_x s * cv_width cv) (st_y s * cv_height cv)
                                             w (st_height s * cv_height cv) (st_rotation s)
                                      else [])))
                   else if selectedLayerType ed = L_text
                      \<and> js_nth (textLayers ed) (selectedLayerIndex ed) \<noteq> None
                   then (case js_nth (textLayers ed) (selectedLayerIndex ed) of
                           None \<Rightarrow> Inl TypeError
                         | Some t \<Rightarrow>
                             (let fontSizePx = fontSize t * cv_height cv;
                                  w = measureText ed cv t
                              in Inr (Set_font (fontWeight t) fontSizePx (fontFamily t)
                                      # (if 0 < w
                                         then layer_overlay ed primaryColor primaryRgb
                                                (tx_x t * cv_width cv) (tx_y t * cv_height cv)
                                                w fontSizePx (tx_rotation t)
                                         else []))))
                   else Inr [])
                else Inr [])
         in case photoPart of
              Inl e \<Rightarrow> Inl e
            | Inr ops1 \<Rightarrow>
                (case otherPart of
                   Inl e \<Rightarrow> Inl e
                 | Inr ops2 \<Rightarrow> Inr (ops1 @ ops2))))"

section \<open>The operator application\<close>

subsection \<open>JavaScript values and arrays\<close>

text \<open>
  A message arriving on the broadcast channel is any structured-cloneable value.
  Strings are lists of code units, each written as a character; the code below only
  compares them with literals and counts them.
\<close>

datatype jsval =
    JUndefined
  | JNull
  | JBool bool
  | JNumber real
  | JString string
  | JObject "(string \<times> jsval) list"
  | JArray "jsval list"

datatype js_type = T_undefined | T_object | T_boolean | T_number | T_string

fun typeof :: "jsval \<Rightarrow> js_type" where
  "typeof JUndefined = T_undefined"
| "typeof JNull = T_object"
| "typeof (JBool b) = T_boolean"
| "typeof (JNumber n) = T_number"
| "typeof (JString s) = T_string"
| "typeof (JObject kvs) = T_object"
| "typeof (JArray vs) = T_object"

text \<open>\<open>!v\<close>.\<close>

fun falsy :: "jsval \<Rightarrow> bool" where
  "falsy JUndefined = True"
| "falsy JNull = True"
| "falsy (JBool b) = (\<not> b)"
| "falsy (JNumber n) = (n = 0)"
| "falsy (JString s) = (s = [])"
| "falsy (JObject kvs) = False"
| "falsy (JArray vs) = False"

text \<open>\<open>v.key\<close> for the keys read below (\<open>type\<close>, \<open>payload\<close>, \<open>email\<close>, \<open>layout\<close>,
  \<open>frameSrc\<close>, \<open>drawing\<close>, \<open>filter\<close>), none of which an array or a primitive has.\<close>

fun js_get :: "jsval \<Rightarrow> string \<Rightarrow> jsval" where
  "js_get (JObject kvs) k = (case map_of kvs k of Some v \<Rightarrow> v | None \<Rightarrow> JUndefined)"
| "js_get v k = JUndefined"

text \<open>
  An array of objects that is written by index. A slot is a hole, an explicit
  \<open>undefined\<close>, or an object. \<open>js_load\<close> is \<open>xs[i]\<close>, with \<open>None\<close> for \<open>undefined\<close>
  (a hole, an explicit \<open>undefined\<close>, or no such index). \<open>js_copy\<close> is the spread
  \<open>[...xs]\<close>, which iterates the array and so turns every hole into an explicit
  \<open>undefined\<close>. \<open>js_store\<close> is \<open>xs[i] = v\<close>, which extends the array with holes
  when \<open>i\<close> is past its end and leaves the elements alone when \<open>i\<close> is negative
  (the value becomes a property that is no element).
\<close>

datatype 'a slot = Hole | Undefined | Elem 'a

definition js_load :: "'a slot list \<Rightarrow> int \<Rightarrow> 'a option" where
  "js_load xs i =
     (if 0 \<le> i \<and> nat i < length xs
      then (case xs ! nat i of Elem v \<Rightarrow> Some v | _ \<Rightarrow> None)
      else None)"

definition js_copy :: "'a slot list \<Rightarrow> 'a slot list" where
  "js_copy xs = map (\<lambda>slot. case slot of Hole \<Rightarrow> Undefined | _ \<Rightarrow> slot) xs"

definition js_store :: "'a slot list \<Rightarrow> int \<Rightarrow> 'a \<Rightarrow> 'a slot list" where
  "js_store xs i v =
     (if i < 0 then xs
      else if nat i < length xs then xs[nat i := Elem v]
      else xs @ replicate (nat i - length xs) Hole @ [Elem v])"

text \<open>\<open>xs.filter((_, i) => i !== sel)\<close>: the callback is not called on a hole, so
  the result has none; an explicit \<open>undefined\<close> and an object are kept unless their
  index is \<open>sel\<close>.\<close>

fun filter_index_from :: "nat \<Rightarrow> int \<Rightarrow> 'a slot list \<Rightarrow> 'a slot list" where
  "filter_index_from i sel [] = []"
| "filter_index_from i sel (Hole # xs) = filter_index_from (Suc i) sel xs"
| "filter_index_from i sel (x # xs) =
     (if int i \<noteq> sel then x # filter_index_from (Suc i) sel xs
      else filter_index_from (Suc i) sel xs)"

definition filter_index_ne :: "int \<Rightarrow> 'a slot list \<Rightarrow> 'a slot list" where
  "filter_index_ne sel xs = filter_index_from 0 sel xs"

subsection \<open>Operator state\<close>

text \<open>
  Sticker and text layers as the operator stores them: objects that an update by
  index merges into, so fields may be absent (\<open>{ ...undefined, ...updates }\<close> has
  only the fields of the update). A layer with every field present is the image of
  a \<open>sticker_layer\<close> or \<open>text_layer\<close>.
\<close>

type_synonym sticker_obj = sticker_updates
type_synonym text_obj = text_updates

definition sticker_obj_of :: "sticker_layer \<Rightarrow> sticker_obj" where
  "sticker_obj_of s = \<lparr>su_id = Some (st_id s), su_src = Some (st_src s), su_x = Some (st_x s),
     su_y = Some (st_y s), su_width = Some (st_width s), su_height = Some (st_height s),
     su_rotation = Some (st_rotation s)\<rparr>"

definition text_obj_of :: "text_layer \<Rightarrow> text_obj" where
  "text_obj_of t = \<lparr>tu_id = Some (tx_id t), tu_text = Some (tx_text t), tu_x = Some (tx_x t),
     tu_y = Some (tx_y t), tu_fontSize = Some (fontSize t), tu_fontFamily = Some (fontFamily t),
     tu_color = Some (tx_color t), tu_rotation = Some (tx_rotation t),
     tu_fontWeight = Some (fontWeight t)\<rparr>"

text \<open>\<open>{ ...a, ...b }\<close> on such objects.\<close>

definition or_else :: "'a option \<Rightarrow> 'a option \<Rightarrow> 'a option" where
  "or_else b a = (case b of Some v \<Rightarrow> Some v | None \<Rightarrow> a)"

definition merge_sticker :: "sticker_obj \<Rightarrow> sticker_updates \<Rightarrow> sticker_obj" where
  "merge_sticker a b =
     \<lparr>su_id = or_else (su_id b) (su_id a), su_src = or_else (su_src b) (su_src a),
      su_x = or_else (su_x b) (su_x a), su_y = or_else (su_y b) (su_y a),
      su_width = or_else (su_width b) (su_width a),
      su_height = or_else (su_height b) (su_height a),
      su_rotation = or_else (su_rotation b) (su_rotation a)\<rparr>"

definition merge_text :: "text_obj \<Rightarrow> text_updates \<Rightarrow> text_obj" where
  "merge_text a b =
     \<lparr>tu_id = or_else (tu_id b) (tu_id a), tu_text = or_else (tu_text b) (tu_text a),
      tu_x = or_else (tu_x b) (tu_x a), tu_y = or_else (tu_y b) (tu_y a),
      tu_fontSize = or_else (tu_fontSize b) (tu_fontSize a),
      tu_fontFamily = or_else (tu_fontFamily b) (tu_fontFamily a),
      tu_color = or_else (tu_color b) (tu_color a),
      tu_rotation = or_else (tu_rotation b) (tu_rotation a),
      tu_fontWeight = or_else (tu_fontWeight b) (tu_fontWeight a)\<rparr>"

text \<open>
  \<open>PhotoboothSession\<close>. A drawing and the filter can come from a guest message
  whose fields of those names are not shape-checked, so they are kept as the values
  they arrive as.
\<close>

record session =
  isActive :: bool
  s_photos :: "photo list"
  s_stickers :: "sticker_obj slot list"
  s_textLayers :: "text_obj slot list"
  s_drawings :: "jsval list"
  s_filter :: jsval
  isPaid :: bool

record placeholder =
  ph_id :: real
  ph_x :: real
  ph_y :: real
  ph_width :: real
  ph_height :: real
  ph_aspectRatio :: "string option"
  ph_fit :: "fit_mode option"

record layout_option =
  lo_id :: string
  lo_label :: string
  lo_placeholders :: "placeholder list"
  lo_isActive :: bool

record frame_layout =
  fl_layoutId :: string
  fl_placeholders :: "placeholder list"

record frame_config =
  fc_id :: string
  fc_name :: string
  fc_thumbnailSrc :: string
  fc_supportedLayouts :: "frame_layout list"
  fc_isVisible :: bool

datatype app_step = FRAME_UPLOAD | TEMPLATE_DESIGN | PHOTO_UPLOAD | FINALIZE_AND_EXPORT

text \<open>The payloads of \<open>sendMessage\<close>, by guest screen mode, with the fields the
  operator puts in them.\<close>

datatype guest_screen_state =
    CONFIG_SELECTION "layout_option list"
  | FRAME_SELECTION "frame_config list"
  | LIVE_PREVIEW "string option" "placeholder list" string
  | REVIEW session "string option" string
  | PAYMENT

text \<open>
  The state of the \<open>App\<close> component that the modelled handlers read or write: the
  session, the settings and analytics fields they touch, the selection, the history
  refs, the cached composite, the messages sent to the guest window (\<open>sent\<close>, oldest
  first) and the number of calls of \<open>handlePrintInternal\<close>. That function is
  asynchronous (it exports the image, counts the print and queues a print job); a
  call of it is recorded and not followed further.
\<close>

record app =
  a_session :: session
  frameSrc :: "string option"
  placeholders :: "placeholder list"
  aspectRatio :: string
  layoutOptions :: "layout_option list"
  availableFrames :: "frame_config list"
  enableVending :: bool
  pricePerPrint :: real
  totalSessions :: nat
  emailsCollected :: "string list"
  totalRevenue :: real
  a_selectedLayerType :: layer_type
  a_selectedLayerIndex :: int
  guestLayoutId :: "string option"
  appStep :: app_step
  history :: "session list"
  historyIndex :: int
  finalCompositeImage :: "string option"
  sent :: "guest_screen_state list"
  printInternalCalls :: nat

definition empty_session :: "bool \<Rightarrow> session" where
  "empty_session active = \<lparr>isActive = active, s_photos = [], s_stickers = [], s_textLayers = [],
     s_drawings = [], s_filter = JString [], isPaid = False\<rparr>"

definition sendMessage :: "guest_screen_state \<Rightarrow> app \<Rightarrow> app" where
  "sendMessage m st = st\<lparr>sent := sent st @ [m]\<rparr>"

text \<open>\<open>if (finalCompositeImage) setFinalCompositeImage(null)\<close>, where the image
  tested is the one the calling closure \<open>cl\<close> sees.\<close>

definition invalidateAiImage :: "app \<Rightarrow> app \<Rightarrow> app" where
  "invalidateAiImage cl st =
     (case finalCompositeImage cl of
        Some img \<Rightarrow> if img \<noteq> [] then st\<lparr>finalCompositeImage := None\<rparr> else st
      | None \<Rightarrow> st)"

text \<open>
  \<open>updateSessionWithHistory\<close>: \<open>history.current.slice(0, historyIndex.current + 1)\<close>
  with the new session pushed, the index on the last entry, the session set, and
  the whole state sent to the guest window. \<open>frameSrc\<close> and \<open>aspectRatio\<close> of the
  message are those the calling closure \<open>cl\<close> sees.
\<close>

definition js_slice0 :: "'a list \<Rightarrow> int \<Rightarrow> 'a list" where
  "js_slice0 xs e =
     (if 0 \<le> e then take (nat e) xs else take (nat (int (length xs) + e)) xs)"

definition updateSessionWithHistory :: "app \<Rightarrow> session \<Rightarrow> app \<Rightarrow> app" where
  "updateSessionWithHistory cl newSession st =
     (let newHistory = js_slice0 (history st) (historyIndex st + 1) @ [newSession]
      in sendMessage (REVIEW newSession (frameSrc cl) (aspectRatio cl))
           (st\<lparr>history := newHistory, historyIndex := int (length newHistory) - 1,
               a_session := newSession\<rparr>))"

subsection \<open>Layer updates and deletion\<close>

text \<open>
  \<open>value.replace(/<[^>]*>/g, '')\<close>: scanning from the left, a \<open><\<close> with a \<open>>\<close>
  somewhere after it starts a match that ends at the first such \<open>>\<close>; the match is
  dropped and the scan goes on behind it. Any other character is kept.
\<close>

function strip_tags :: "string \<Rightarrow> string" where
  "strip_tags [] = []"
| "strip_tags (c # cs) =
     (if c = CHR ''<'' \<and> CHR ''>'' \<in> set cs
      then strip_tags (tl (dropWhile (\<lambda>d. d \<noteq> CHR ''>'') cs))
      else c # strip_tags cs)"
  by pat_completeness auto
termination
proof (relation "measure length")
  show "wf (measure length)" by simp
next
  fix c :: char and cs :: string
  have "length (tl (dropWhile (\<lambda>d. d \<noteq> CHR ''>'') cs)) \<le> length cs"
    using length_dropWhile_le [of "\<lambda>d. d \<noteq> CHR ''>''" cs] by simp
  then show "(tl (dropWhile (\<lambda>d. d \<noteq> CHR ''>'') cs), c # cs) \<in> measure length"
    by simp
next
  fix c :: char and cs :: string
  show "(cs, c # cs) \<in> measure length" by simp
qed

text \<open>\<open>stripped.slice(0, 300)\<close>.\<close>

definition sanitize :: "string \<Rightarrow> string" where
  "sanitize v = take 300 (strip_tags v)"

text \<open>Whether \<open>/<[^>]*>/\<close> matches somewhere in a string: some \<open><\<close> has a \<open>>\<close>
  after it.\<close>

fun contains_tag :: "string \<Rightarrow> bool" where
  "contains_tag [] = False"
| "contains_tag (c # cs) = ((c = CHR ''<'' \<and> CHR ''>'' \<in> set cs) \<or> contains_tag cs)"

text \<open>
  \<open>handleUpdateText\<close> and \<open>handleUpdateSticker\<close>, as the canvas editor calls them
  through its props (the instance of the current render, so the closure is the
  current state). The array is copied by \<open>[...layers]\<close>; a \<open>text\<close> field of the
  update that is a string is sanitized; the update is merged into the layer at the
  index.
\<close>

definition handleUpdateText :: "int \<Rightarrow> text_updates \<Rightarrow> app \<Rightarrow> app" where
  "handleUpdateText index updates st =
     (let st1 = invalidateAiImage st st;
          newTexts = js_copy (s_textLayers (a_session st));
          safeUpdates = (case tu_text updates of
                           Some v \<Rightarrow> updates\<lparr>tu_text := Some (sanitize v)\<rparr>
                         | None \<Rightarrow> updates);
          old = (case js_load newTexts index of Some obj \<Rightarrow> obj | None \<Rightarrow> no_text_updates)
      in updateSessionWithHistory st
           ((a_session st)\<lparr>s_textLayers := js_store newTexts index (merge_text old safeUpdates)\<rparr>)
           st1)"

definition handleUpdateSticker :: "int \<Rightarrow> sticker_updates \<Rightarrow> app \<Rightarrow> app" where
  "handleUpdateSticker index updates st =
     (let st1 = invalidateAiImage st st;
          newStickers = js_copy (s_stickers (a_session st));
          old = (case js_load newStickers index of Some obj \<Rightarrow> obj | None \<Rightarrow> no_sticker_updates)
      in updateSessionWithHistory st
           ((a_session st)\<lparr>s_stickers := js_store newStickers index (merge_sticker old updates)\<rparr>)
           st1)"

text \<open>
  \<open>handleDeleteLayer\<close>: the selected sticker or text layer is filtered out of its
  array, and the selection index is set to \<open>-1\<close> whatever the layer type. The
  function is called from the delete button, with the instance of the current
  render, and from the keydown listener for Delete and Backspace. That listener
  is registered by an effect whose dependencies leave out the session and the
  selected layer type, so the instance it calls can be that of an older render:
  the session, the selection and the composite image the function reads are those
  of the closure \<open>cl\<close>, and what it sets lands on the current state \<open>st\<close>. From
  the button \<open>cl\<close> is \<open>st\<close>.
\<close>

definition handleDeleteLayer :: "app \<Rightarrow> app \<Rightarrow> app" where
  "handleDeleteLayer cl st =
     (let st1 = invalidateAiImage cl st;
          st2 = (if a_selectedLayerType cl = L_sticker then
                   updateSessionWithHistory cl
                     ((a_session cl)\<lparr>s_stickers :=
                        filter_index_ne (a_selectedLayerIndex cl) (s_stickers (a_session cl))\<rparr>)
                     st1
                 else if a_selectedLayerType cl = L_text then
                   updateSessionWithHistory cl
                     ((a_session cl)\<lparr>s_textLayers :=
                        filter_index_ne (a_selectedLayerIndex cl) (s_textLayers (a_session cl))\<rparr>)
                     st1
                 else st1)
      in st2\<lparr>a_selectedLayerIndex := - 1\<rparr>)"

subsection \<open>Guest messages\<close>

definition allowed :: "string list" where
  "allowed = [''GUEST_START'', ''GUEST_SELECT_LAYOUT'', ''GUEST_SELECT_FRAME'', ''GUEST_EMAIL'',
              ''GUEST_PRINT'', ''GUEST_ADD_DRAWING'', ''GUEST_SET_FILTER'',
              ''GUEST_PAYMENT_COMPLETE'']"

text \<open>\<open>xs.includes(v)\<close> on an array of strings: strict equality, so only a string
  can be found.\<close>

definition js_includes :: "string list \<Rightarrow> jsval \<Rightarrow> bool" where
  "js_includes xs v = (case v of JString s \<Rightarrow> s \<in> set xs | _ \<Rightarrow> False)"

text \<open>\<open>typeof v !== 'string' || v.length > n\<close>.\<close>

definition not_string_or_longer :: "jsval \<Rightarrow> nat \<Rightarrow> bool" where
  "not_string_or_longer v n = (case v of JString s \<Rightarrow> n < length s | _ \<Rightarrow> True)"

definition validateInterWindowMessage :: "jsval \<Rightarrow> bool" where
  "validateInterWindowMessage msg =
     (if falsy msg \<or> typeof msg \<noteq> T_object then False
      else if js_get msg ''type'' = JString ''GUEST_ACTION'' then
        (let p = js_get msg ''payload'' in
         if falsy p \<or> typeof p \<noteq> T_object \<or> typeof (js_get p ''type'') \<noteq> T_string then False
         else if \<not> js_includes allowed (js_get p ''type'') then False
         else if js_get p ''type'' = JString ''GUEST_EMAIL''
                 \<and> not_string_or_longer (js_get p ''email'') 200 then False
         else if js_get p ''type'' = JString ''GUEST_SELECT_LAYOUT''
                 \<and> typeof (js_get p ''layout'') \<noteq> T_string then False
         else if js_get p ''type'' = JString ''GUEST_SELECT_FRAME''
                 \<and> typeof (js_get p ''frameSrc'') \<noteq> T_string then False
         else js_includes [''SET_STATE'', ''GET_STATE'', ''GUEST_ACTION''] (js_get msg ''type''))
      else js_includes [''SET_STATE'', ''GET_STATE'', ''GUEST_ACTION''] (js_get msg ''type''))"

text \<open>
  The typed action \<open>GuestAction\<close> that \<open>handleGuestActionDispatch\<close> takes, and the
  reading of a payload as one. A payload that passed the validation reads as an
  action (lemma \<open>validated_payload_reads\<close> below); one with a field of the wrong
  shape does not.
\<close>

datatype guest_action =
    GUEST_START
  | GUEST_SELECT_LAYOUT string
  | GUEST_SELECT_FRAME string
  | GUEST_EMAIL string
  | GUEST_PRINT
  | GUEST_ADD_DRAWING jsval
  | GUEST_SET_FILTER jsval
  | GUEST_PAYMENT_COMPLETE

definition as_action :: "jsval \<Rightarrow> guest_action option" where
  "as_action p =
     (case js_get p ''type'' of
        JString ty \<Rightarrow>
          (if ty = ''GUEST_START'' then Some GUEST_START
           else if ty = ''GUEST_SELECT_LAYOUT'' then
             (case js_get p ''layout'' of JString l \<Rightarrow> Some (GUEST_SELECT_LAYOUT l) | _ \<Rightarrow> None)
           else if ty = ''GUEST_SELECT_FRAME'' then
             (case js_get p ''frameSrc'' of JString f \<Rightarrow> Some (GUEST_SELECT_FRAME f) | _ \<Rightarrow> None)
           else if ty = ''GUEST_EMAIL'' then
             (case js_get p ''email'' of JString e \<Rightarrow> Some (GUEST_EMAIL e) | _ \<Rightarrow> None)
           else if ty = ''GUEST_PRINT'' then Some GUEST_PRINT
           else if ty = ''GUEST_ADD_DRAWING'' then Some (GUEST_ADD_DRAWING (js_get p ''drawing''))
           else if ty = ''GUEST_SET_FILTER'' then Some (GUEST_SET_FILTER (js_get p ''filter''))
           else if ty = ''GUEST_PAYMENT_COMPLETE'' then Some GUEST_PAYMENT_COMPLETE
           else None)
      | _ \<Rightarrow> None)"

definition handlePrintInternal :: "app \<Rightarrow> app" where
  "handlePrintInternal st = st\<lparr>printInternalCalls := Suc (printInternalCalls st)\<rparr>"

definition handlePrint :: "app \<Rightarrow> app \<Rightarrow> app" where
  "handlePrint cl st =
     (if enableVending cl \<and> \<not> isPaid (a_session cl) then sendMessage PAYMENT st
      else handlePrintInternal st)"

definition applyPresetLayout :: "app \<Rightarrow> string \<Rightarrow> app \<Rightarrow> app" where
  "applyPresetLayout cl type st =
     (if type = ''custom'' then st
      else (case find (\<lambda>l. lo_id l = type) (layoutOptions cl) of
              Some layout \<Rightarrow> st\<lparr>placeholders := lo_placeholders layout\<rparr>
            | None \<Rightarrow> st))"

text \<open>
  \<open>handleGuestActionDispatch\<close>. The listener that calls it is registered by an
  effect, so what it reads directly (\<open>settings\<close>, \<open>session\<close>, \<open>analytics\<close>) are the
  values of the render that registered it, the closure \<open>cl\<close>; the functional
  updates \<open>setX(prev => \<dots>)\<close> and the refs act on the current state \<open>st\<close>.
\<close>

definition handleGuestActionDispatch :: "app \<Rightarrow> guest_action \<Rightarrow> app \<Rightarrow> app" where
  "handleGuestActionDispatch cl action st =
     (case action of
        GUEST_START \<Rightarrow>
          sendMessage (CONFIG_SELECTION (layoutOptions cl))
            (st\<lparr>a_session := empty_session True, totalSessions := totalSessions st + 1\<rparr>)
      | GUEST_SELECT_LAYOUT layout \<Rightarrow>
          (let st1 = st\<lparr>guestLayoutId := Some layout\<rparr>;
               st2 = (if layout \<noteq> ''custom'' then applyPresetLayout cl layout st1 else st1);
               compatibleFrames =
                 filter (\<lambda>f. fc_isVisible f
                              \<and> (\<exists>sl \<in> set (fc_supportedLayouts f). fl_layoutId sl = layout))
                   (availableFrames cl)
           in if 0 < length compatibleFrames then sendMessage (FRAME_SELECTION compatibleFrames) st2
              else sendMessage (LIVE_PREVIEW (frameSrc cl) (placeholders cl) (aspectRatio cl))
                     (st2\<lparr>appStep := PHOTO_UPLOAD\<rparr>))
      | GUEST_SELECT_FRAME src \<Rightarrow>
          (let st1 = (case find (\<lambda>f. fc_thumbnailSrc f = src) (availableFrames cl) of
                        Some selectedFrame \<Rightarrow> st\<lparr>frameSrc := Some (fc_thumbnailSrc selectedFrame)\<rparr>
                      | None \<Rightarrow> st\<lparr>frameSrc := Some src\<rparr>)
           in sendMessage (LIVE_PREVIEW (Some src) (placeholders cl) (aspectRatio cl))
                (st1\<lparr>appStep := PHOTO_UPLOAD\<rparr>))
      | GUEST_EMAIL email \<Rightarrow>
          (if email \<noteq> [] \<and> email \<notin> set (emailsCollected cl)
           then st\<lparr>emailsCollected := emailsCollected st @ [email]\<rparr>
           else st)
      | GUEST_PRINT \<Rightarrow> handlePrint cl st
      | GUEST_ADD_DRAWING drawing \<Rightarrow>
          updateSessionWithHistory cl
            ((a_session cl)\<lparr>s_drawings := s_drawings (a_session cl) @ [drawing]\<rparr>) st
      | GUEST_SET_FILTER flt \<Rightarrow>
          updateSessionWithHistory cl ((a_session cl)\<lparr>s_filter := flt\<rparr>) st
      | GUEST_PAYMENT_COMPLETE \<Rightarrow>
          handlePrintInternal
            (st\<lparr>a_session := (a_session st)\<lparr>isPaid := True\<rparr>,
                totalRevenue := totalRevenue st + pricePerPrint cl\<rparr>))"

text \<open>
  The channel listener \<open>handleGuestAction\<close> on the data of a message event: a
  message that fails the validation is ignored without a trace; a guest action that
  passes is dispatched.
\<close>

definition handleGuestAction :: "app \<Rightarrow> jsval \<Rightarrow> app \<Rightarrow> app" where
  "handleGuestAction cl msg st =
     (if \<not> validateInterWindowMessage msg then st
      else if js_get msg ''type'' = JString ''GUEST_ACTION'' then
        (case as_action (js_get msg ''payload'') of
           Some action \<Rightarrow> handleGuestActionDispatch cl action st
         | None \<Rightarrow> st)
      else st)"

text \<open>A stored text object is clean when its text, if it has one, matches no tag
  and has at most 300 characters; a session is clean when every text layer is.\<close>

definition text_clean :: "text_obj \<Rightarrow> bool" where
  "text_clean obj =
     (case tu_text obj of None \<Rightarrow> True | Some s \<Rightarrow> \<not> contains_tag s \<and> length s \<le> 300)"

definition texts_clean :: "text_obj slot list \<Rightarrow> bool" where
  "texts_clean xs = list_all (\<lambda>slot. case slot of Elem obj \<Rightarrow> text_clean obj | _ \<Rightarrow> True) xs"

section \<open>The compositor request effect\<close>

text \<open>
  The effect of \<open>App\<close> that asks the compositor worker for a composite, as a state
  machine over the events that drive it. Time is in milliseconds. The state holds
  the flags the effect tests on entry (\<open>useWorkerCompositor\<close>, whether the worker
  ref and the canvas ref are set), the ref \<open>workerPendingRef\<close>, the timeouts of the
  effect that are still to fire (identifier and due time, oldest first), the
  cleanup that the last run of the effect returned (the identifier of the timeout
  it clears, \<open>None\<close> when that run returned early), and the times at which a
  \<open>COMPOSITE\<close> request was posted. \<open>postMessageThrows\<close> says whether
  \<open>w.postMessage\<close> throws.
\<close>

record compositor =
  useWorkerCompositor :: bool
  workerRef :: bool
  finalCanvasRef :: bool
  postMessageThrows :: bool
  workerPending :: bool
  clock :: nat
  timers :: "(nat \<times> nat) list"
  nextTimer :: nat
  cleanup :: "nat option"
  posted :: "nat list"

text \<open>
  \<open>Edit\<close>: a dependency of the effect changed (a layer array, the frame, the
  opacity, the filter, the global scale), so React runs the cleanup of the previous
  run and then the effect. \<open>Advance d\<close>: \<open>d\<close> milliseconds pass and the timeouts that
  come due fire. \<open>Result\<close>: the worker answers \<open>RESULT\<close>.
\<close>

datatype event = Edit | Advance nat | Result

text \<open>\<open>() => clearTimeout(timeout)\<close>.\<close>

definition run_cleanup :: "compositor \<Rightarrow> compositor" where
  "run_cleanup st =
     (case cleanup st of
        None \<Rightarrow> st
      | Some t \<Rightarrow> st\<lparr>timers := filter (\<lambda>(i, due). i \<noteq> t) (timers st), cleanup := None\<rparr>)"

text \<open>The body of the effect: the early returns, then the pending flag is set and
  the request is scheduled 150 ms ahead.\<close>

definition run_effect :: "compositor \<Rightarrow> compositor" where
  "run_effect st =
     (if \<not> useWorkerCompositor st then st\<lparr>cleanup := None\<rparr>
      else if \<not> workerRef st then st\<lparr>cleanup := None\<rparr>
      else if \<not> finalCanvasRef st then st\<lparr>cleanup := None\<rparr>
      else if workerPending st then st\<lparr>cleanup := None\<rparr>
      else st\<lparr>workerPending := True,
              timers := timers st @ [(nextTimer st, clock st + 150)],
              nextTimer := Suc (nextTimer st),
              cleanup := Some (nextTimer st)\<rparr>)"

text \<open>The timeout callback, run at time \<open>due\<close>:
  \<open>try { w.postMessage(msg) } catch (err) { workerPendingRef.current = false }\<close>.\<close>

definition fire :: "nat \<Rightarrow> compositor \<Rightarrow> compositor" where
  "fire due st =
     (if postMessageThrows st then st\<lparr>workerPending := False\<rparr>
      else st\<lparr>posted := posted st @ [due]\<rparr>)"

fun fire_all :: "(nat \<times> nat) list \<Rightarrow> compositor \<Rightarrow> compositor" where
  "fire_all [] st = st"
| "fire_all ((i, due) # ts) st = fire_all ts (fire due st)"

definition advance :: "nat \<Rightarrow> compositor \<Rightarrow> compositor" where
  "advance d st =
     (let now = clock st + d
      in fire_all (filter (\<lambda>(i, due). due \<le> now) (timers st))
           (st\<lparr>clock := now, timers := filter (\<lambda>(i, due). \<not> due \<le> now) (timers st)\<rparr>))"

text \<open>\<open>w.onmessage\<close> on a \<open>RESULT\<close>.\<close>

definition on_result :: "compositor \<Rightarrow> compositor" where
  "on_result st = st\<lparr>workerPending := False\<rparr>"

fun step :: "event \<Rightarrow> compositor \<Rightarrow> compositor" where
  "step Edit st = run_effect (run_cleanup st)"
| "step (Advance d) st = advance d st"
| "step Result st = on_result st"

fun run :: "event list \<Rightarrow> compositor \<Rightarrow> compositor" where
  "run [] st = st"
| "run (e # es) st = run es (step e st)"

text \<open>The editor at rest on the finalize step: worker and canvas in place, nothing
  pending, nothing scheduled.\<close>

definition compositor_idle :: compositor where
  "compositor_idle = \<lparr>useWorkerCompositor = True, workerRef = True, finalCanvasRef = True,
     postMessageThrows = False, workerPending = False, clock = 0, timers = [], nextTimer = 0,
     cleanup = None, posted = []\<rparr>"

text \<open>\<open>n\<close> further edits, each \<open>gap\<close> milliseconds after the one before.\<close>

fun more_edits :: "nat \<Rightarrow> nat \<Rightarrow> event list" where
  "more_edits gap 0 = []"
| "more_edits gap (Suc n) = Advance gap # Edit # more_edits gap n"

text \<open>The state the effect cannot leave on its own: the pending flag is set, no
  timeout is scheduled and no request is in flight to answer.\<close>

definition stuck :: "compositor \<Rightarrow> bool" where
  "stuck st \<longleftrightarrow> workerPending st \<and> timers st = [] \<and> cleanup st = None"

section \<open>Example inputs\<close>

text \<open>Concrete sessions on which the theorems below are instantiated.\<close>

definition ex_photo :: photo where
  "ex_photo = \<lparr>photo_src = ''a.jpg'',
     photo_transform = \<lparr>tr_x = 0.5, tr_y = 0.5, tr_width = 0.4, tr_height = 0.4, tr_rotation = 0\<rparr>,
     photo_crop = \<lparr>crop_x = 0, crop_y = 0, crop_scale = 1\<rparr>,
     originalWidth = 1200, originalHeight = 800, photo_fit = None\<rparr>"

definition ex_sticker :: sticker_layer where
  "ex_sticker = \<lparr>st_id = ''s1'', st_src = ''star.png'', st_x = 0.5, st_y = 0.5,
     st_width = 0.2, st_height = 0.2, st_rotation = 0\<rparr>"

definition ex_canvas :: canvas where
  "ex_canvas = \<lparr>cv_width = 1000, cv_height = 1500, cv_context = True\<rparr>"

definition ex_editor :: editor where
  "ex_editor = \<lparr>photos = [ex_photo], stickers = [ex_sticker], textLayers = [],
     selectedLayerType = L_sticker, selectedLayerIndex = 0, globalPhotoScale = 1,
     isDrawingMode = False, onDrawStart = False, onDrawPoint = False,
     canvasRef = Some ex_canvas, devicePixelRatio = 1,
     measureText = (\<lambda>cv t. 10 * real (length (tx_text t)))\<rparr>"

definition ex_interaction :: interaction where
  "ex_interaction = \<lparr>mode = Idle, startX = 0, startY = 0, startVal = S_null,
     startAngle = 0, startDist = None\<rparr>"






definition ex_text :: text_layer where
  "ex_text = \<lparr>tx_id = ''t1'', tx_text = ''Hello'', tx_x = 0.5, tx_y = 0.5, fontSize = 0.05,
     fontFamily = ''Arial'', tx_color = ''#8b5cf6'', tx_rotation = 0, fontWeight = ''bold''\<rparr>"

text \<open>Two text layers: the upper one (index 1) is selected, and the lower one lies
  under the rotation handle of the upper one.\<close>

definition ex_text_under_handle :: text_layer where
  "ex_text_under_handle = ex_text\<lparr>tx_id := ''t0'', tx_y := 0.455\<rparr>"



text \<open>An operator state in the middle of a session, and guest messages.\<close>

definition ex_layout :: layout_option where
  "ex_layout = \<lparr>lo_id = ''strip-3'', lo_label = ''3 Strips'',
     lo_placeholders = [\<lparr>ph_id = 1, ph_x = 0.05, ph_y = 0.05, ph_width = 0.9, ph_height = 0.28,
                         ph_aspectRatio = None, ph_fit = Some Cover\<rparr>],
     lo_isActive = True\<rparr>"

definition ex_session :: session where
  "ex_session = \<lparr>isActive = True, s_photos = [ex_photo],
     s_stickers = [Elem (sticker_obj_of ex_sticker)],
     s_textLayers = [Elem (text_obj_of ex_text)],
     s_drawings = [], s_filter = JString [], isPaid = False\<rparr>"

definition ex_app :: app where
  "ex_app = \<lparr>a_session = ex_session, frameSrc = Some ''frame.png'', placeholders = [],
     aspectRatio = ''2 / 3'', layoutOptions = [ex_layout], availableFrames = [],
     enableVending = False, pricePerPrint = 5, totalSessions = 1,
     emailsCollected = [''ann@example.org''], totalRevenue = 0,
     a_selectedLayerType = L_text, a_selectedLayerIndex = 0, guestLayoutId = None,
     appStep = FINALIZE_AND_EXPORT, history = [ex_session], historyIndex = 0,
     finalCompositeImage = None, sent = [], printInternalCalls = 0\<rparr>"

text \<open>The state one render later, after a second text layer was added; the
  selection index has not changed, so the keydown listener is still the one
  registered with \<open>ex_app\<close>.\<close>

definition ex_later_app :: app where
  "ex_later_app = ex_app\<lparr>a_session := ex_session\<lparr>s_textLayers :=
     [Elem (text_obj_of ex_text), Elem (text_obj_of ex_text_under_handle)]\<rparr>\<rparr>"

definition guest_message :: "(string \<times> jsval) list \<Rightarrow> jsval" where
  "guest_message payload =
     JObject [(''type'', JString ''GUEST_ACTION''), (''payload'', JObject payload)]"

definition ex_bad_layout_message :: jsval where
  "ex_bad_layout_message =
     guest_message [(''type'', JString ''GUEST_SELECT_LAYOUT''), (''layout'', JNumber 3)]"

definition ex_good_layout_message :: jsval where
  "ex_good_layout_message =
     guest_message [(''type'', JString ''GUEST_SELECT_LAYOUT''), (''layout'', JString ''strip-3'')]"

definition ex_long_email_message :: jsval where
  "ex_long_email_message =
     guest_message [(''type'', JString ''GUEST_EMAIL''),
                    (''email'', JString (replicate 201 (CHR ''a'')))]"

definition ex_email_message :: jsval where
  "ex_email_message =
     guest_message [(''type'', JString ''GUEST_EMAIL''), (''email'', JString ''bob@example.org'')]"

text \<open>A drawing action without a drawing, and a filter action whose filter is a
  number.\<close>

definition ex_no_drawing_message :: jsval where
  "ex_no_drawing_message = guest_message [(''type'', JString ''GUEST_ADD_DRAWING'')]"

definition ex_number_filter_message :: jsval where
  "ex_number_filter_message =
     guest_message [(''type'', JString ''GUEST_SET_FILTER''), (''filter'', JNumber 7)]"

definition ex_text_update :: text_updates where
  "ex_text_update = no_text_updates\<lparr>tu_text := Some ''<b>Hi</b> there <''\<rparr>"

text \<open>The example editor with a selection index that is past the end of the
  sticker array.\<close>

definition ex_stale_editor :: editor where
  "ex_stale_editor = ex_editor\<lparr>selectedLayerIndex := 5\<rparr>"

section \<open>Geometry lemmas\<close>

lemma hypot_nonneg: "0 \<le> hypot a b"
  by (simp add: hypot_def)


lemma hypot_less_iff: "0 \<le> r \<Longrightarrow> hypot a b < r \<longleftrightarrow> a * a + b * b < r * r"
proof -
  assume r: "0 \<le> r"
  have "hypot a b < r \<longleftrightarrow> sqrt (a * a + b * b) < sqrt (r * r)"
    using r by (simp add: hypot_def)
  also have "\<dots> \<longleftrightarrow> a * a + b * b < r * r"
    by (rule real_sqrt_less_iff)
  finally show ?thesis .
qed

lemma hypot_eqI: "0 \<le> r \<Longrightarrow> a * a + b * b = r * r \<Longrightarrow> hypot a b = r"
  by (simp add: hypot_def)






lemmas handle_consts =
  ROTATION_HANDLE_OFFSET_def ROTATION_HANDLE_SIZE_def SCALE_HANDLE_SIZE_def

section \<open>Facts about hit testing and the example session\<close>

lemma getHit_not_drawing: "getHit ed m = Some h \<Longrightarrow> \<not> isDrawingMode ed"
  by (auto simp: getHit_def split: if_splits)

lemma getHit_canvas: "getHit ed m = Some h \<Longrightarrow> \<exists>cv. canvasRef ed = Some cv"
  by (auto simp: getHit_def split: if_splits option.splits)

lemma ex_getHit_photo:
  "getHit ex_editor \<lparr>pt_x = 350, pt_y = 500\<rparr> = Some (Hit H_move L_photo 0)"
  by (simp add: getHit_def ex_editor_def ex_canvas_def ex_sticker_def ex_photo_def
      hit_sticker_def hit_photo_def localX_def localY_def dpr_def toAbsolute_def
      handle_consts hypot_less_iff Let_def)

lemma ex_getHit_scale:
  "getHit ex_editor \<lparr>pt_x = 605, pt_y = 890\<rparr> = Some (Hit H_scale L_sticker 0)"
  by (simp add: getHit_def ex_editor_def ex_canvas_def ex_sticker_def ex_photo_def
      hit_sticker_def hit_photo_def localX_def localY_def dpr_def toAbsolute_def
      handle_consts hypot_less_iff Let_def)

lemma ex_hypot_175: "hypot 105 140 = 175"
  by (rule hypot_eqI) simp_all

lemma ex_hypot_350: "hypot 210 280 = 350"
  by (rule hypot_eqI) simp_all

section \<open>Crop panning\<close>

text \<open>
  Claim C3. A session with one photo at transform
  \<open>{x: 0.5, y: 0.5, width: 0.4, height: 0.4, rotation: 0}\<close> and crop
  \<open>{x: 0, y: 0, scale: 1}\<close>: a crop-pan gesture (a pointer-down that hits the body
  of photo \<open>i\<close>, then a pointer-move 20 pixels right and 20 pixels down, with
  \<open>globalPhotoScale = 1\<close>) makes the editor call \<open>onPhotoUpdate\<close> for that photo with
  an update whose crop, and so the crop of the stored photo, is
  \<open>{x: -20, y: -20, scale: 1}\<close>.
\<close>

theorem C3_crop_pan_example:
  assumes hit: "getHit ed m0 = Some (Hit H_move L_photo i)"
    and tr: "photo_transform (photos ed ! i) =
               \<lparr>tr_x = 0.5, tr_y = 0.5, tr_width = 0.4, tr_height = 0.4, tr_rotation = 0\<rparr>"
    and cr: "photo_crop (photos ed ! i) = \<lparr>crop_x = 0, crop_y = 0, crop_scale = 1\<rparr>"
    and gps: "globalPhotoScale ed = 1"
  shows "\<exists>r u. handleStart ed ia0 m0 = Some r
           \<and> sr_select r = Some (L_photo, int i)
           \<and> handleMove (ed\<lparr>selectedLayerType := L_photo, selectedLayerIndex := int i\<rparr>)
                (sr_interaction r) \<lparr>pt_x = pt_x m0 + 20, pt_y = pt_y m0 + 20\<rparr> np
               = Photo_update (int i) u
           \<and> pu_crop u = Some \<lparr>crop_x = - 20, crop_y = - 20, crop_scale = 1\<rparr>
           \<and> photo_crop (spread_photo (photos ed ! i) u)
               = \<lparr>crop_x = - 20, crop_y = - 20, crop_scale = 1\<rparr>"
proof -
  from hit have nd: "\<not> isDrawingMode ed" by (rule getHit_not_drawing)
  from hit obtain cv where cv: "canvasRef ed = Some cv" using getHit_canvas by blast
  show ?thesis
    using hit nd cv tr cr gps
    by (simp add: handleStart_def handleMove_def snapshot_def crop_panning_def Let_def
        spread_photo_def no_photo_updates_def)
qed

theorem C3_crop_pan_example_witness:
  "getHit ex_editor \<lparr>pt_x = 350, pt_y = 500\<rparr> = Some (Hit H_move L_photo 0)
   \<and> photo_transform (photos ex_editor ! 0) =
       \<lparr>tr_x = 0.5, tr_y = 0.5, tr_width = 0.4, tr_height = 0.4, tr_rotation = 0\<rparr>
   \<and> photo_crop (photos ex_editor ! 0) = \<lparr>crop_x = 0, crop_y = 0, crop_scale = 1\<rparr>
   \<and> globalPhotoScale ex_editor = 1
   \<and> (\<exists>r u. handleStart ex_editor ex_interaction \<lparr>pt_x = 350, pt_y = 500\<rparr> = Some r
         \<and> sr_select r = Some (L_photo, 0)
         \<and> handleMove (ex_editor\<lparr>selectedLayerType := L_photo, selectedLayerIndex := 0\<rparr>)
              (sr_interaction r) \<lparr>pt_x = 370, pt_y = 520\<rparr> \<lparr>pt_x = 0.37, pt_y = 0.35\<rparr>
             = Photo_update 0 u
         \<and> pu_crop u = Some \<lparr>crop_x = - 20, crop_y = - 20, crop_scale = 1\<rparr>
         \<and> photo_crop (spread_photo ex_photo u)
             = \<lparr>crop_x = - 20, crop_y = - 20, crop_scale = 1\<rparr>)"
proof -
  have tr: "photo_transform (photos ex_editor ! 0) =
       \<lparr>tr_x = 0.5, tr_y = 0.5, tr_width = 0.4, tr_height = 0.4, tr_rotation = 0\<rparr>"
    by (simp add: ex_editor_def ex_photo_def)
  have cr: "photo_crop (photos ex_editor ! 0) = \<lparr>crop_x = 0, crop_y = 0, crop_scale = 1\<rparr>"
    by (simp add: ex_editor_def ex_photo_def)
  have gps: "globalPhotoScale ex_editor = 1"
    by (simp add: ex_editor_def)
  have ph: "photos ex_editor ! 0 = ex_photo" by (simp add: ex_editor_def)
  from C3_crop_pan_example [OF ex_getHit_photo tr cr gps, of ex_interaction
      "\<lparr>pt_x = 0.37, pt_y = 0.35\<rparr>"]
  show ?thesis
    using ex_getHit_photo tr cr gps by (simp add: ph)
qed





section \<open>Scaling\<close>

lemma scaling_sticker_double:
  assumes sd: "startDist ia = Some d" and dpos: "0 < d"
    and dbl: "hypot (pt_x m - st_x s * cv_width cv) (pt_y m - st_y s * cv_height cv) = 2 * d"
    and w: "st_width s = 0.2" and h: "st_height s = 0.2"
  shows "su_width (scaling_sticker cv ia s m) = Some 0.4
       \<and> su_height (scaling_sticker cv ia s m) = Some 0.4"
proof -
  have dn: "d \<noteq> 0" using dpos by linarith
  have one: "startDist_or_1 ia = d"
    using sd dn by (simp add: startDist_or_1_def)
  show ?thesis
    using dn by (simp add: scaling_sticker_def Let_def dbl one w h no_sticker_updates_def)
qed

text \<open>
  Claim C8. A sticker at \<open>{x: 0.5, y: 0.5, width: 0.2, height: 0.2, rotation: 0}\<close>:
  a pointer-down on its scale handle at \<open>m0\<close> (at a positive distance from the
  centre of the sticker) followed by a pointer-move to a point \<open>m1\<close> twice as far
  from the centre makes the editor call \<open>onStickerUpdate\<close> with
  \<open>width = height = 0.4\<close>, which the stored sticker then has: the aspect ratio is
  kept and the floor 0.02 does not bite.
\<close>

theorem C8_sticker_scale_double:
  assumes hit: "getHit ed m0 = Some (Hit H_scale L_sticker i)"
    and cv: "canvasRef ed = Some cv"
    and st: "stickers ed ! i = \<lparr>st_id = sid, st_src = src, st_x = 0.5, st_y = 0.5,
               st_width = 0.2, st_height = 0.2, st_rotation = 0\<rparr>"
    and d0: "0 < hypot (pt_x m0 - 0.5 * cv_width cv) (pt_y m0 - 0.5 * cv_height cv)"
    and dbl: "hypot (pt_x m1 - 0.5 * cv_width cv) (pt_y m1 - 0.5 * cv_height cv)
                = 2 * hypot (pt_x m0 - 0.5 * cv_width cv) (pt_y m0 - 0.5 * cv_height cv)"
  shows "\<exists>r u. handleStart ed ia0 m0 = Some r
           \<and> sr_select r = Some (L_sticker, int i)
           \<and> handleMove (ed\<lparr>selectedLayerType := L_sticker, selectedLayerIndex := int i\<rparr>)
                (sr_interaction r) m1 np = Sticker_update (int i) u
           \<and> su_width u = Some 0.4 \<and> su_height u = Some 0.4
           \<and> st_width (spread_sticker (stickers ed ! i) u) = 0.4
           \<and> st_height (spread_sticker (stickers ed ! i) u) = 0.4"
proof -
  from hit have nd: "\<not> isDrawingMode ed" by (rule getHit_not_drawing)
  define s where "s = stickers ed ! i"
  define d where "d = hypot (pt_x m0 - st_x s * cv_width cv) (pt_y m0 - st_y s * cv_height cv)"
  define ia where "ia = ia0\<lparr>startX := pt_x m0, startY := pt_y m0, startVal := S_sticker s,
                          mode := Scaling_layer, startDist := Some d\<rparr>"
  define r where "r = \<lparr>sr_select = Some (L_sticker, int i), sr_drawStart = False,
                        sr_interaction = ia\<rparr>"
  have sx: "st_x s = 0.5" and sy: "st_y s = 0.5" and sw: "st_width s = 0.2"
    and sh: "st_height s = 0.2"
    using st by (simp_all add: s_def)
  have dpos: "0 < d" using d0 by (simp add: d_def sx sy)
  have dbl': "hypot (pt_x m1 - st_x s * cv_width cv) (pt_y m1 - st_y s * cv_height cv) = 2 * d"
    using dbl by (simp add: d_def sx sy)
  have start: "handleStart ed ia0 m0 = Some r"
    using hit nd cv
    by (simp add: handleStart_def snapshot_def scale_centre_def Let_def r_def ia_def d_def
        s_def)
  have sd: "startDist ia = Some d" by (simp add: ia_def)
  have move: "handleMove (ed\<lparr>selectedLayerType := L_sticker, selectedLayerIndex := int i\<rparr>)
                ia m1 np = Sticker_update (int i) (scaling_sticker cv ia s m1)"
    using nd cv by (simp add: handleMove_def ia_def)
  from scaling_sticker_double [OF sd dpos dbl' sw sh] start move
  show ?thesis by (simp add: r_def spread_sticker_def s_def [symmetric])
qed

theorem C8_sticker_scale_double_witness:
  "getHit ex_editor \<lparr>pt_x = 605, pt_y = 890\<rparr> = Some (Hit H_scale L_sticker 0)
   \<and> canvasRef ex_editor = Some ex_canvas
   \<and> stickers ex_editor ! 0 = \<lparr>st_id = ''s1'', st_src = ''star.png'', st_x = 0.5, st_y = 0.5,
               st_width = 0.2, st_height = 0.2, st_rotation = 0\<rparr>
   \<and> 0 < hypot (605 - 0.5 * cv_width ex_canvas) (890 - 0.5 * cv_height ex_canvas)
   \<and> hypot (710 - 0.5 * cv_width ex_canvas) (1030 - 0.5 * cv_height ex_canvas)
       = 2 * hypot (605 - 0.5 * cv_width ex_canvas) (890 - 0.5 * cv_height ex_canvas)
   \<and> (\<exists>r u. handleStart ex_editor ex_interaction \<lparr>pt_x = 605, pt_y = 890\<rparr> = Some r
         \<and> sr_select r = Some (L_sticker, 0)
         \<and> handleMove ex_editor (sr_interaction r) \<lparr>pt_x = 710, pt_y = 1030\<rparr>
              \<lparr>pt_x = 0.71, pt_y = 0.69\<rparr> = Sticker_update 0 u
         \<and> su_width u = Some 0.4 \<and> su_height u = Some 0.4
         \<and> st_width (spread_sticker ex_sticker u) = 0.4
         \<and> st_height (spread_sticker ex_sticker u) = 0.4)"
proof -
  have cv: "canvasRef ex_editor = Some ex_canvas" by (simp add: ex_editor_def)
  have st: "stickers ex_editor ! 0 = \<lparr>st_id = ''s1'', st_src = ''star.png'', st_x = 0.5,
              st_y = 0.5, st_width = 0.2, st_height = 0.2, st_rotation = 0\<rparr>"
    by (simp add: ex_editor_def ex_sticker_def)
  have d0: "0 < hypot (pt_x \<lparr>pt_x = 605, pt_y = 890\<rparr> - 0.5 * cv_width ex_canvas)
                      (pt_y \<lparr>pt_x = 605, pt_y = 890\<rparr> - 0.5 * cv_height ex_canvas)"
    by (simp add: ex_canvas_def ex_hypot_175)
  have dbl: "hypot (pt_x \<lparr>pt_x = 710, pt_y = 1030\<rparr> - 0.5 * cv_width ex_canvas)
                   (pt_y \<lparr>pt_x = 710, pt_y = 1030\<rparr> - 0.5 * cv_height ex_canvas)
             = 2 * hypot (pt_x \<lparr>pt_x = 605, pt_y = 890\<rparr> - 0.5 * cv_width ex_canvas)
                         (pt_y \<lparr>pt_x = 605, pt_y = 890\<rparr> - 0.5 * cv_height ex_canvas)"
    by (simp add: ex_canvas_def ex_hypot_175 ex_hypot_350)
  have same: "ex_editor\<lparr>selectedLayerType := L_sticker, selectedLayerIndex := int 0\<rparr> = ex_editor"
    by (simp add: ex_editor_def)
  have s0: "stickers ex_editor ! 0 = ex_sticker" by (simp add: ex_editor_def)
  from C8_sticker_scale_double [OF ex_getHit_scale cv st d0 dbl, of ex_interaction
      "\<lparr>pt_x = 0.71, pt_y = 0.69\<rparr>"]
  have "\<exists>r u. handleStart ex_editor ex_interaction \<lparr>pt_x = 605, pt_y = 890\<rparr> = Some r
         \<and> sr_select r = Some (L_sticker, 0)
         \<and> handleMove ex_editor (sr_interaction r) \<lparr>pt_x = 710, pt_y = 1030\<rparr>
              \<lparr>pt_x = 0.71, pt_y = 0.69\<rparr> = Sticker_update 0 u
         \<and> su_width u = Some 0.4 \<and> su_height u = Some 0.4
         \<and> st_width (spread_sticker ex_sticker u) = 0.4
         \<and> st_height (spread_sticker ex_sticker u) = 0.4"
    unfolding same s0 by auto
  then show ?thesis
    using ex_getHit_scale cv st d0 dbl by simp
qed

section \<open>The size floor under gestures\<close>





















section \<open>Hit testing order\<close>

















































section \<open>Guest messages\<close>

lemma js_get_defined_object: "js_get v k \<noteq> JUndefined \<Longrightarrow> \<exists>kvs. v = JObject kvs"
  by (cases v) simp_all

lemma js_get_string_object: "js_get v k = JString s \<Longrightarrow> \<not> falsy v \<and> typeof v = T_object"
  by (cases v) simp_all

lemma invalid_ignored: "\<not> validateInterWindowMessage msg \<Longrightarrow> handleGuestAction cl msg st = st"
  by (simp add: handleGuestAction_def)

lemma allowed_mem:
  "js_includes allowed (JString ty) \<longleftrightarrow>
     ty = ''GUEST_START'' \<or> ty = ''GUEST_SELECT_LAYOUT'' \<or> ty = ''GUEST_SELECT_FRAME''
     \<or> ty = ''GUEST_EMAIL'' \<or> ty = ''GUEST_PRINT'' \<or> ty = ''GUEST_ADD_DRAWING''
     \<or> ty = ''GUEST_SET_FILTER'' \<or> ty = ''GUEST_PAYMENT_COMPLETE''"
  by (simp add: js_includes_def allowed_def)

lemma typeof_string: "typeof v = T_string \<longleftrightarrow> (\<exists>s. v = JString s)"
  by (cases v) simp_all

lemma validated_payload:
  assumes v: "validateInterWindowMessage msg"
    and ga: "js_get msg ''type'' = JString ''GUEST_ACTION''"
  shows "js_includes allowed (js_get (js_get msg ''payload'') ''type'')
       \<and> (js_get (js_get msg ''payload'') ''type'' = JString ''GUEST_EMAIL'' \<longrightarrow>
            \<not> not_string_or_longer (js_get (js_get msg ''payload'') ''email'') 200)
       \<and> (js_get (js_get msg ''payload'') ''type'' = JString ''GUEST_SELECT_LAYOUT'' \<longrightarrow>
            typeof (js_get (js_get msg ''payload'') ''layout'') = T_string)
       \<and> (js_get (js_get msg ''payload'') ''type'' = JString ''GUEST_SELECT_FRAME'' \<longrightarrow>
            typeof (js_get (js_get msg ''payload'') ''frameSrc'') = T_string)"
  using v ga
  by (simp add: validateInterWindowMessage_def Let_def split: if_splits)

lemma validated_payload_reads:
  assumes v: "validateInterWindowMessage msg"
    and ga: "js_get msg ''type'' = JString ''GUEST_ACTION''"
  shows "\<exists>action. as_action (js_get msg ''payload'') = Some action"
proof -
  define p where "p = js_get msg ''payload''"
  from validated_payload [OF v ga]
  have inc: "js_includes allowed (js_get p ''type'')"
    and em: "js_get p ''type'' = JString ''GUEST_EMAIL'' \<Longrightarrow>
               \<not> not_string_or_longer (js_get p ''email'') 200"
    and la: "js_get p ''type'' = JString ''GUEST_SELECT_LAYOUT'' \<Longrightarrow>
               typeof (js_get p ''layout'') = T_string"
    and fr: "js_get p ''type'' = JString ''GUEST_SELECT_FRAME'' \<Longrightarrow>
               typeof (js_get p ''frameSrc'') = T_string"
    by (simp_all add: p_def)
  from inc obtain ty where ty: "js_get p ''type'' = JString ty"
    by (auto simp: js_includes_def split: jsval.splits)
  with inc have mem: "ty = ''GUEST_START'' \<or> ty = ''GUEST_SELECT_LAYOUT'' \<or> ty = ''GUEST_SELECT_FRAME''
     \<or> ty = ''GUEST_EMAIL'' \<or> ty = ''GUEST_PRINT'' \<or> ty = ''GUEST_ADD_DRAWING''
     \<or> ty = ''GUEST_SET_FILTER'' \<or> ty = ''GUEST_PAYMENT_COMPLETE''"
    by (simp add: allowed_mem)
  have em': "ty = ''GUEST_EMAIL'' \<Longrightarrow> \<exists>e. js_get p ''email'' = JString e"
    using em ty by (auto simp: not_string_or_longer_def split: jsval.splits)
  have la': "ty = ''GUEST_SELECT_LAYOUT'' \<Longrightarrow> \<exists>l. js_get p ''layout'' = JString l"
    using la ty by (simp add: typeof_string)
  have fr': "ty = ''GUEST_SELECT_FRAME'' \<Longrightarrow> \<exists>l. js_get p ''frameSrc'' = JString l"
    using fr ty by (simp add: typeof_string)
  have "\<exists>action. as_action p = Some action"
    using mem
  proof (elim disjE)
    assume "ty = ''GUEST_START''"
    then show ?thesis using ty by (simp add: as_action_def)
  next
    assume t: "ty = ''GUEST_SELECT_LAYOUT''"
    from la' [OF t] obtain l where "js_get p ''layout'' = JString l" by blast
    then show ?thesis using ty t by (simp add: as_action_def)
  next
    assume t: "ty = ''GUEST_SELECT_FRAME''"
    from fr' [OF t] obtain l where "js_get p ''frameSrc'' = JString l" by blast
    then show ?thesis using ty t by (simp add: as_action_def)
  next
    assume t: "ty = ''GUEST_EMAIL''"
    from em' [OF t] obtain l where "js_get p ''email'' = JString l" by blast
    then show ?thesis using ty t by (simp add: as_action_def)
  next
    assume "ty = ''GUEST_PRINT''"
    then show ?thesis using ty by (simp add: as_action_def)
  next
    assume "ty = ''GUEST_ADD_DRAWING''"
    then show ?thesis using ty by (simp add: as_action_def)
  next
    assume "ty = ''GUEST_SET_FILTER''"
    then show ?thesis using ty by (simp add: as_action_def)
  next
    assume "ty = ''GUEST_PAYMENT_COMPLETE''"
    then show ?thesis using ty by (simp add: as_action_def)
  qed
  then show ?thesis by (simp add: p_def)
qed


lemma valid_dispatched:
  assumes v: "validateInterWindowMessage msg"
    and ga: "js_get msg ''type'' = JString ''GUEST_ACTION''"
  shows "\<exists>action. as_action (js_get msg ''payload'') = Some action
           \<and> handleGuestAction cl msg st = handleGuestActionDispatch cl action st"
proof -
  from validated_payload_reads [OF v ga]
  obtain action where "as_action (js_get msg ''payload'') = Some action" by blast
  then show ?thesis using v ga by (simp add: handleGuestAction_def)
qed

lemma bad_layout_invalid:
  assumes ga: "js_get msg ''type'' = JString ''GUEST_ACTION''"
    and ty: "js_get (js_get msg ''payload'') ''type'' = JString ''GUEST_SELECT_LAYOUT''"
    and bad: "typeof (js_get (js_get msg ''payload'') ''layout'') \<noteq> T_string"
  shows "\<not> validateInterWindowMessage msg"
  using ga ty bad by (simp add: validateInterWindowMessage_def Let_def)

lemma unchecked_fields_valid:
  assumes ga: "js_get msg ''type'' = JString ''GUEST_ACTION''"
    and ty: "js_get (js_get msg ''payload'') ''type'' = JString ''GUEST_ADD_DRAWING''
             \<or> js_get (js_get msg ''payload'') ''type'' = JString ''GUEST_SET_FILTER''"
  shows "validateInterWindowMessage msg"
proof -
  from js_get_string_object [OF ga] have m: "\<not> falsy msg" "typeof msg = T_object" by simp_all
  from ty obtain t where t: "js_get (js_get msg ''payload'') ''type'' = JString t"
    and tt: "t = ''GUEST_ADD_DRAWING'' \<or> t = ''GUEST_SET_FILTER''"
    by blast
  from js_get_string_object [OF t]
  have p: "\<not> falsy (js_get msg ''payload'')" "typeof (js_get msg ''payload'') = T_object"
    by simp_all
  from tt show ?thesis
  proof
    assume "t = ''GUEST_ADD_DRAWING''"
    with ga m p t show ?thesis
      by (simp add: validateInterWindowMessage_def Let_def js_includes_def allowed_def)
  next
    assume "t = ''GUEST_SET_FILTER''"
    with ga m p t show ?thesis
      by (simp add: validateInterWindowMessage_def Let_def js_includes_def allowed_def)
  qed
qed

lemma drawing_unchecked:
  assumes ga: "js_get msg ''type'' = JString ''GUEST_ACTION''"
    and ty: "js_get (js_get msg ''payload'') ''type'' = JString ''GUEST_ADD_DRAWING''"
  shows "validateInterWindowMessage msg
         \<and> handleGuestAction cl msg st
             = updateSessionWithHistory cl
                 ((a_session cl)\<lparr>s_drawings := s_drawings (a_session cl)
                     @ [js_get (js_get msg ''payload'') ''drawing'']\<rparr>) st"
proof -
  have v: "validateInterWindowMessage msg"
    using ga ty by (blast intro: unchecked_fields_valid)
  have a: "as_action (js_get msg ''payload'')
             = Some (GUEST_ADD_DRAWING (js_get (js_get msg ''payload'') ''drawing''))"
    using ty by (simp add: as_action_def)
  show ?thesis
    using v ga a by (simp add: handleGuestAction_def handleGuestActionDispatch_def)
qed

lemma filter_unchecked:
  assumes ga: "js_get msg ''type'' = JString ''GUEST_ACTION''"
    and ty: "js_get (js_get msg ''payload'') ''type'' = JString ''GUEST_SET_FILTER''"
  shows "validateInterWindowMessage msg
         \<and> handleGuestAction cl msg st
             = updateSessionWithHistory cl
                 ((a_session cl)\<lparr>s_filter := js_get (js_get msg ''payload'') ''filter''\<rparr>) st"
proof -
  have v: "validateInterWindowMessage msg"
    using ga ty by (blast intro: unchecked_fields_valid)
  have a: "as_action (js_get msg ''payload'')
             = Some (GUEST_SET_FILTER (js_get (js_get msg ''payload'') ''filter''))"
    using ty by (simp add: as_action_def)
  show ?thesis
    using v ga a by (simp add: handleGuestAction_def handleGuestActionDispatch_def)
qed

text \<open>
  Claim C5. A \<open>GUEST_ACTION\<close> message whose payload has type
  \<open>GUEST_SELECT_LAYOUT\<close> and a \<open>layout\<close> field that is not a string fails the
  validation, and the listener returns with the whole operator state (session,
  settings, analytics, messages sent) as it was. In general a message that fails
  the validation changes nothing, and a guest action is dispatched only after the
  validation found its type in the fixed allow-list and, for an email, layout or
  frame action, its \<open>email\<close> field a string of at most 200 characters, its
  \<open>layout\<close> field a string, or its \<open>frameSrc\<close> field a string. The two other
  actions that carry a field have no check of it: a drawing action passes the
  validation whatever its \<open>drawing\<close> field is, also when it has none, and that
  value is appended to the drawings of the session; a filter action passes
  whatever its \<open>filter\<close> field is, and that value becomes the filter of the
  session. So not every action has its field shape checked before it is applied.
\<close>

theorem C5_invalid_layout_dropped:
  "(js_get msg ''type'' = JString ''GUEST_ACTION''
      \<and> js_get (js_get msg ''payload'') ''type'' = JString ''GUEST_SELECT_LAYOUT''
      \<and> typeof (js_get (js_get msg ''payload'') ''layout'') \<noteq> T_string
    \<longrightarrow> \<not> validateInterWindowMessage msg \<and> handleGuestAction cl msg st = st)
   \<and> (\<not> validateInterWindowMessage msg \<longrightarrow> handleGuestAction cl msg st = st)
   \<and> (validateInterWindowMessage msg \<and> js_get msg ''type'' = JString ''GUEST_ACTION''
      \<longrightarrow> js_includes allowed (js_get (js_get msg ''payload'') ''type'')
        \<and> (js_get (js_get msg ''payload'') ''type'' = JString ''GUEST_EMAIL'' \<longrightarrow>
              \<not> not_string_or_longer (js_get (js_get msg ''payload'') ''email'') 200)
        \<and> (js_get (js_get msg ''payload'') ''type'' = JString ''GUEST_SELECT_LAYOUT'' \<longrightarrow>
              typeof (js_get (js_get msg ''payload'') ''layout'') = T_string)
        \<and> (js_get (js_get msg ''payload'') ''type'' = JString ''GUEST_SELECT_FRAME'' \<longrightarrow>
              typeof (js_get (js_get msg ''payload'') ''frameSrc'') = T_string)
        \<and> (\<exists>action. as_action (js_get msg ''payload'') = Some action
              \<and> handleGuestAction cl msg st = handleGuestActionDispatch cl action st))
   \<and> (js_get msg ''type'' = JString ''GUEST_ACTION''
      \<and> js_get (js_get msg ''payload'') ''type'' = JString ''GUEST_ADD_DRAWING''
      \<longrightarrow> validateInterWindowMessage msg
        \<and> handleGuestAction cl msg st
            = updateSessionWithHistory cl
                ((a_session cl)\<lparr>s_drawings := s_drawings (a_session cl)
                    @ [js_get (js_get msg ''payload'') ''drawing'']\<rparr>) st)
   \<and> (js_get msg ''type'' = JString ''GUEST_ACTION''
      \<and> js_get (js_get msg ''payload'') ''type'' = JString ''GUEST_SET_FILTER''
      \<longrightarrow> validateInterWindowMessage msg
        \<and> handleGuestAction cl msg st
            = updateSessionWithHistory cl
                ((a_session cl)\<lparr>s_filter := js_get (js_get msg ''payload'') ''filter''\<rparr>) st)"
proof -
  have one: "(js_get msg ''type'' = JString ''GUEST_ACTION''
      \<and> js_get (js_get msg ''payload'') ''type'' = JString ''GUEST_SELECT_LAYOUT''
      \<and> typeof (js_get (js_get msg ''payload'') ''layout'') \<noteq> T_string
    \<longrightarrow> \<not> validateInterWindowMessage msg \<and> handleGuestAction cl msg st = st)
   \<and> (\<not> validateInterWindowMessage msg \<longrightarrow> handleGuestAction cl msg st = st)
   \<and> (validateInterWindowMessage msg \<and> js_get msg ''type'' = JString ''GUEST_ACTION''
      \<longrightarrow> js_includes allowed (js_get (js_get msg ''payload'') ''type'')
        \<and> (js_get (js_get msg ''payload'') ''type'' = JString ''GUEST_EMAIL'' \<longrightarrow>
              \<not> not_string_or_longer (js_get (js_get msg ''payload'') ''email'') 200)
        \<and> (js_get (js_get msg ''payload'') ''type'' = JString ''GUEST_SELECT_LAYOUT'' \<longrightarrow>
              typeof (js_get (js_get msg ''payload'') ''layout'') = T_string)
        \<and> (js_get (js_get msg ''payload'') ''type'' = JString ''GUEST_SELECT_FRAME'' \<longrightarrow>
              typeof (js_get (js_get msg ''payload'') ''frameSrc'') = T_string)
        \<and> (\<exists>action. as_action (js_get msg ''payload'') = Some action
              \<and> handleGuestAction cl msg st = handleGuestActionDispatch cl action st))"
    using bad_layout_invalid [of msg] invalid_ignored [of msg cl st]
      validated_payload [of msg] valid_dispatched [of msg cl st]
    by blast
  show ?thesis
    using one drawing_unchecked [of msg cl st] filter_unchecked [of msg cl st]
    by (intro conjI impI) (simp_all only: conj_assoc, blast+)
qed

lemma ex_bad_layout_fields:
  "js_get ex_bad_layout_message ''type'' = JString ''GUEST_ACTION''"
  "js_get (js_get ex_bad_layout_message ''payload'') ''type'' = JString ''GUEST_SELECT_LAYOUT''"
  "typeof (js_get (js_get ex_bad_layout_message ''payload'') ''layout'') \<noteq> T_string"
  by (simp_all add: ex_bad_layout_message_def guest_message_def)

lemma ex_good_layout_valid:
  "validateInterWindowMessage ex_good_layout_message"
  "js_get ex_good_layout_message ''type'' = JString ''GUEST_ACTION''"
  by (simp_all add: ex_good_layout_message_def guest_message_def
      validateInterWindowMessage_def Let_def js_includes_def allowed_def)

lemma ex_good_layout_action:
  "as_action (js_get ex_good_layout_message ''payload'') = Some (GUEST_SELECT_LAYOUT ''strip-3'')"
  by (simp add: ex_good_layout_message_def guest_message_def as_action_def)

theorem C5_invalid_layout_dropped_witness:
  "js_get ex_bad_layout_message ''type'' = JString ''GUEST_ACTION''
   \<and> js_get (js_get ex_bad_layout_message ''payload'') ''type'' = JString ''GUEST_SELECT_LAYOUT''
   \<and> typeof (js_get (js_get ex_bad_layout_message ''payload'') ''layout'') \<noteq> T_string
   \<and> \<not> validateInterWindowMessage ex_bad_layout_message
   \<and> handleGuestAction ex_app ex_bad_layout_message ex_app = ex_app
   \<and> validateInterWindowMessage ex_good_layout_message
   \<and> js_get ex_good_layout_message ''type'' = JString ''GUEST_ACTION''
   \<and> handleGuestAction ex_app ex_good_layout_message ex_app
       = handleGuestActionDispatch ex_app (GUEST_SELECT_LAYOUT ''strip-3'') ex_app
   \<and> guestLayoutId (handleGuestAction ex_app ex_good_layout_message ex_app) = Some ''strip-3''
   \<and> placeholders (handleGuestAction ex_app ex_good_layout_message ex_app)
       = lo_placeholders ex_layout
   \<and> js_get ex_no_drawing_message ''type'' = JString ''GUEST_ACTION''
   \<and> js_get (js_get ex_no_drawing_message ''payload'') ''type'' = JString ''GUEST_ADD_DRAWING''
   \<and> js_get (js_get ex_no_drawing_message ''payload'') ''drawing'' = JUndefined
   \<and> handleGuestAction ex_app ex_no_drawing_message ex_app
       = updateSessionWithHistory ex_app
           ((a_session ex_app)\<lparr>s_drawings := s_drawings (a_session ex_app) @ [JUndefined]\<rparr>)
           ex_app
   \<and> js_get ex_number_filter_message ''type'' = JString ''GUEST_ACTION''
   \<and> js_get (js_get ex_number_filter_message ''payload'') ''type'' = JString ''GUEST_SET_FILTER''
   \<and> js_get (js_get ex_number_filter_message ''payload'') ''filter'' = JNumber 7
   \<and> handleGuestAction ex_app ex_number_filter_message ex_app
       = updateSessionWithHistory ex_app ((a_session ex_app)\<lparr>s_filter := JNumber 7\<rparr>) ex_app"
proof -
  have dr: "js_get ex_no_drawing_message ''type'' = JString ''GUEST_ACTION''"
    "js_get (js_get ex_no_drawing_message ''payload'') ''type'' = JString ''GUEST_ADD_DRAWING''"
    "js_get (js_get ex_no_drawing_message ''payload'') ''drawing'' = JUndefined"
    by (simp_all add: ex_no_drawing_message_def guest_message_def)
  have fl: "js_get ex_number_filter_message ''type'' = JString ''GUEST_ACTION''"
    "js_get (js_get ex_number_filter_message ''payload'') ''type'' = JString ''GUEST_SET_FILTER''"
    "js_get (js_get ex_number_filter_message ''payload'') ''filter'' = JNumber 7"
    by (simp_all add: ex_number_filter_message_def guest_message_def)
  from C5_invalid_layout_dropped [of ex_no_drawing_message ex_app ex_app] dr(1,2)
  have "handleGuestAction ex_app ex_no_drawing_message ex_app
       = updateSessionWithHistory ex_app
           ((a_session ex_app)\<lparr>s_drawings := s_drawings (a_session ex_app)
               @ [js_get (js_get ex_no_drawing_message ''payload'') ''drawing'']\<rparr>)
           ex_app"
    by blast
  then have drawn: "handleGuestAction ex_app ex_no_drawing_message ex_app
       = updateSessionWithHistory ex_app
           ((a_session ex_app)\<lparr>s_drawings := s_drawings (a_session ex_app) @ [JUndefined]\<rparr>)
           ex_app"
    unfolding dr(3) .
  from C5_invalid_layout_dropped [of ex_number_filter_message ex_app ex_app] fl(1,2)
  have "handleGuestAction ex_app ex_number_filter_message ex_app
       = updateSessionWithHistory ex_app
           ((a_session ex_app)\<lparr>s_filter :=
               js_get (js_get ex_number_filter_message ''payload'') ''filter''\<rparr>) ex_app"
    by blast
  then have filtered: "handleGuestAction ex_app ex_number_filter_message ex_app
       = updateSessionWithHistory ex_app ((a_session ex_app)\<lparr>s_filter := JNumber 7\<rparr>) ex_app"
    unfolding fl(3) .
  from C5_invalid_layout_dropped [of ex_bad_layout_message ex_app ex_app] ex_bad_layout_fields
  have bad: "\<not> validateInterWindowMessage ex_bad_layout_message
             \<and> handleGuestAction ex_app ex_bad_layout_message ex_app = ex_app"
    by blast
  from C5_invalid_layout_dropped [of ex_good_layout_message ex_app ex_app] ex_good_layout_valid ex_good_layout_action
  have good: "handleGuestAction ex_app ex_good_layout_message ex_app
       = handleGuestActionDispatch ex_app (GUEST_SELECT_LAYOUT ''strip-3'') ex_app"
    by auto
  have d1: "guestLayoutId (handleGuestActionDispatch ex_app (GUEST_SELECT_LAYOUT ''strip-3'') ex_app)
              = Some ''strip-3''"
    by (simp add: handleGuestActionDispatch_def Let_def applyPresetLayout_def ex_app_def
        ex_layout_def sendMessage_def)
  have d2: "placeholders (handleGuestActionDispatch ex_app (GUEST_SELECT_LAYOUT ''strip-3'') ex_app)
              = lo_placeholders ex_layout"
    by (simp add: handleGuestActionDispatch_def Let_def applyPresetLayout_def ex_app_def
        ex_layout_def sendMessage_def)
  show ?thesis
    using bad good d1 d2 ex_bad_layout_fields ex_good_layout_valid dr fl drawn filtered
    by simp
qed


text \<open>
  The validation at two messages the channel can carry: a drawing action with no
  \<open>drawing\<close> passes and appends \<open>undefined\<close> to the drawings of the session, and a
  filter action with a number for \<open>filter\<close> passes and sets the filter of the
  session to that number, where the claim has every action checked for the shape
  of its fields before it is applied.
\<close>

theorem C5_counterexample:
  "validateInterWindowMessage ex_no_drawing_message
   \<and> s_drawings (a_session (handleGuestAction ex_app ex_no_drawing_message ex_app))
       = [JUndefined]
   \<and> validateInterWindowMessage ex_number_filter_message
   \<and> s_filter (a_session (handleGuestAction ex_app ex_number_filter_message ex_app))
       = JNumber 7"
proof -
  have v1: "validateInterWindowMessage ex_no_drawing_message"
    by (simp add: ex_no_drawing_message_def guest_message_def validateInterWindowMessage_def
        Let_def js_includes_def allowed_def)
  have a1: "as_action (js_get ex_no_drawing_message ''payload'')
              = Some (GUEST_ADD_DRAWING JUndefined)"
    by (simp add: ex_no_drawing_message_def guest_message_def as_action_def)
  have g1: "js_get ex_no_drawing_message ''type'' = JString ''GUEST_ACTION''"
    by (simp add: ex_no_drawing_message_def guest_message_def)
  have d1: "s_drawings (a_session (handleGuestActionDispatch ex_app
              (GUEST_ADD_DRAWING JUndefined) ex_app)) = [JUndefined]"
    by (simp add: handleGuestActionDispatch_def updateSessionWithHistory_def sendMessage_def
        Let_def ex_app_def ex_session_def)
  have r1: "s_drawings (a_session (handleGuestAction ex_app ex_no_drawing_message ex_app))
       = [JUndefined]"
    using v1 a1 g1 d1 by (simp add: handleGuestAction_def)
  have v2: "validateInterWindowMessage ex_number_filter_message"
    by (simp add: ex_number_filter_message_def guest_message_def validateInterWindowMessage_def
        Let_def js_includes_def allowed_def)
  have a2: "as_action (js_get ex_number_filter_message ''payload'')
              = Some (GUEST_SET_FILTER (JNumber 7))"
    by (simp add: ex_number_filter_message_def guest_message_def as_action_def)
  have g2: "js_get ex_number_filter_message ''type'' = JString ''GUEST_ACTION''"
    by (simp add: ex_number_filter_message_def guest_message_def)
  have d2: "s_filter (a_session (handleGuestActionDispatch ex_app
              (GUEST_SET_FILTER (JNumber 7)) ex_app)) = JNumber 7"
    by (simp add: handleGuestActionDispatch_def updateSessionWithHistory_def sendMessage_def
        Let_def)
  have r2: "s_filter (a_session (handleGuestAction ex_app ex_number_filter_message ex_app))
       = JNumber 7"
    using v2 a2 g2 d2 by (simp add: handleGuestAction_def)
  show ?thesis using v1 r1 v2 r2 by blast
qed

lemma bad_email_invalid:
  assumes ga: "js_get msg ''type'' = JString ''GUEST_ACTION''"
    and ty: "js_get (js_get msg ''payload'') ''type'' = JString ''GUEST_EMAIL''"
    and bad: "typeof (js_get (js_get msg ''payload'') ''email'') \<noteq> T_string
              \<or> (\<exists>e. js_get (js_get msg ''payload'') ''email'' = JString e \<and> 200 < length e)"
  shows "\<not> validateInterWindowMessage msg"
proof -
  from bad have "not_string_or_longer (js_get (js_get msg ''payload'') ''email'') 200"
    by (auto simp: not_string_or_longer_def split: jsval.splits)
  then show ?thesis
    using ga ty by (simp add: validateInterWindowMessage_def Let_def)
qed

lemma good_email_valid:
  assumes ga: "js_get msg ''type'' = JString ''GUEST_ACTION''"
    and ty: "js_get (js_get msg ''payload'') ''type'' = JString ''GUEST_EMAIL''"
    and em: "js_get (js_get msg ''payload'') ''email'' = JString e" and len: "length e \<le> 200"
  shows "validateInterWindowMessage msg
       \<and> as_action (js_get msg ''payload'') = Some (GUEST_EMAIL e)"
proof -
  from ga have m: "\<not> falsy msg \<and> typeof msg = T_object" by (rule js_get_string_object)
  from ty have p: "\<not> falsy (js_get msg ''payload'') \<and> typeof (js_get msg ''payload'') = T_object"
    by (rule js_get_string_object)
  have inc: "js_includes allowed (JString ''GUEST_EMAIL'')"
    by (simp add: allowed_mem)
  have inc2: "js_includes [''SET_STATE'', ''GET_STATE'', ''GUEST_ACTION''] (JString ''GUEST_ACTION'')"
    by (simp add: js_includes_def)
  have ok: "\<not> not_string_or_longer (JString e) 200"
    using len by (simp add: not_string_or_longer_def)
  have v: "validateInterWindowMessage msg"
    using m p ga ty em inc inc2 ok by (simp add: validateInterWindowMessage_def Let_def)
  have a: "as_action (js_get msg ''payload'') = Some (GUEST_EMAIL e)"
    using ty em by (simp add: as_action_def)
  from v a show ?thesis by blast
qed

lemma good_email_collected:
  assumes ga: "js_get msg ''type'' = JString ''GUEST_ACTION''"
    and ty: "js_get (js_get msg ''payload'') ''type'' = JString ''GUEST_EMAIL''"
    and em: "js_get (js_get msg ''payload'') ''email'' = JString e" and len: "length e \<le> 200"
    and ne: "e \<noteq> []" and new: "e \<notin> set (emailsCollected cl)"
  shows "handleGuestAction cl msg st = st\<lparr>emailsCollected := emailsCollected st @ [e]\<rparr>"
  using good_email_valid [OF ga ty em len] ga ne new
  by (simp add: handleGuestAction_def handleGuestActionDispatch_def)

text \<open>
  Claim C10. A \<open>GUEST_ACTION\<close> message of type \<open>GUEST_EMAIL\<close> whose \<open>email\<close>
  field is not a string, or is a string of more than 200 characters, fails the
  validation and is ignored: the operator state, and with it the list of collected
  emails, is as it was. An email of at most 200 characters passes, and is
  collected when it is non-empty and new.
\<close>

theorem C10_long_email_dropped:
  "(js_get msg ''type'' = JString ''GUEST_ACTION''
      \<and> js_get (js_get msg ''payload'') ''type'' = JString ''GUEST_EMAIL''
      \<and> (typeof (js_get (js_get msg ''payload'') ''email'') \<noteq> T_string
          \<or> (\<exists>e. js_get (js_get msg ''payload'') ''email'' = JString e \<and> 200 < length e))
    \<longrightarrow> \<not> validateInterWindowMessage msg
        \<and> handleGuestAction cl msg st = st
        \<and> emailsCollected (handleGuestAction cl msg st) = emailsCollected st)
   \<and> (js_get msg ''type'' = JString ''GUEST_ACTION''
      \<and> js_get (js_get msg ''payload'') ''type'' = JString ''GUEST_EMAIL''
      \<and> js_get (js_get msg ''payload'') ''email'' = JString e
      \<and> length e \<le> 200 \<and> e \<noteq> [] \<and> e \<notin> set (emailsCollected cl)
    \<longrightarrow> validateInterWindowMessage msg
        \<and> handleGuestAction cl msg st = st\<lparr>emailsCollected := emailsCollected st @ [e]\<rparr>)"
proof (intro conjI impI)
  assume a: "js_get msg ''type'' = JString ''GUEST_ACTION''
      \<and> js_get (js_get msg ''payload'') ''type'' = JString ''GUEST_EMAIL''
      \<and> (typeof (js_get (js_get msg ''payload'') ''email'') \<noteq> T_string
          \<or> (\<exists>e. js_get (js_get msg ''payload'') ''email'' = JString e \<and> 200 < length e))"
  then have inv: "\<not> validateInterWindowMessage msg"
    using bad_email_invalid [of msg] by blast
  then show "\<not> validateInterWindowMessage msg" .
  from inv show same: "handleGuestAction cl msg st = st" by (rule invalid_ignored)
  from same show "emailsCollected (handleGuestAction cl msg st) = emailsCollected st" by simp
next
  assume a: "js_get msg ''type'' = JString ''GUEST_ACTION''
      \<and> js_get (js_get msg ''payload'') ''type'' = JString ''GUEST_EMAIL''
      \<and> js_get (js_get msg ''payload'') ''email'' = JString e
      \<and> length e \<le> 200 \<and> e \<noteq> [] \<and> e \<notin> set (emailsCollected cl)"
  then show "validateInterWindowMessage msg"
    using good_email_valid [of msg e] by blast
  from a show "handleGuestAction cl msg st = st\<lparr>emailsCollected := emailsCollected st @ [e]\<rparr>"
    using good_email_collected [of msg e cl st] by blast
qed

lemma ex_long_email_fields:
  "js_get ex_long_email_message ''type'' = JString ''GUEST_ACTION''"
  "js_get (js_get ex_long_email_message ''payload'') ''type'' = JString ''GUEST_EMAIL''"
  "js_get (js_get ex_long_email_message ''payload'') ''email'' = JString (replicate 201 (CHR ''a''))"
  by (simp_all add: ex_long_email_message_def guest_message_def)

lemma ex_email_fields:
  "js_get ex_email_message ''type'' = JString ''GUEST_ACTION''"
  "js_get (js_get ex_email_message ''payload'') ''type'' = JString ''GUEST_EMAIL''"
  "js_get (js_get ex_email_message ''payload'') ''email'' = JString ''bob@example.org''"
  by (simp_all add: ex_email_message_def guest_message_def)

theorem C10_long_email_dropped_witness:
  "js_get ex_long_email_message ''type'' = JString ''GUEST_ACTION''
   \<and> js_get (js_get ex_long_email_message ''payload'') ''type'' = JString ''GUEST_EMAIL''
   \<and> js_get (js_get ex_long_email_message ''payload'') ''email''
       = JString (replicate 201 (CHR ''a''))
   \<and> 200 < length (replicate 201 (CHR ''a''))
   \<and> \<not> validateInterWindowMessage ex_long_email_message
   \<and> handleGuestAction ex_app ex_long_email_message ex_app = ex_app
   \<and> js_get ex_email_message ''type'' = JString ''GUEST_ACTION''
   \<and> js_get (js_get ex_email_message ''payload'') ''type'' = JString ''GUEST_EMAIL''
   \<and> js_get (js_get ex_email_message ''payload'') ''email'' = JString ''bob@example.org''
   \<and> length ''bob@example.org'' \<le> 200
   \<and> ''bob@example.org'' \<notin> set (emailsCollected ex_app)
   \<and> validateInterWindowMessage ex_email_message
   \<and> emailsCollected (handleGuestAction ex_app ex_email_message ex_app)
       = [''ann@example.org'', ''bob@example.org'']"
proof -
  have len: "200 < length (replicate 201 (CHR ''a''))" by simp
  from C10_long_email_dropped [where msg = ex_long_email_message and cl = ex_app and st = ex_app and e = "[]"] ex_long_email_fields len
  have bad: "\<not> validateInterWindowMessage ex_long_email_message
             \<and> handleGuestAction ex_app ex_long_email_message ex_app = ex_app"
    by blast
  have l2: "length ''bob@example.org'' \<le> 200" by simp
  have ne: "''bob@example.org'' \<noteq> []" by simp
  have new: "''bob@example.org'' \<notin> set (emailsCollected ex_app)"
    by (simp add: ex_app_def)
  from C10_long_email_dropped [where msg = ex_email_message and cl = ex_app and st = ex_app
      and e = "''bob@example.org''"] ex_email_fields l2 ne new
  have good: "validateInterWindowMessage ex_email_message
       \<and> handleGuestAction ex_app ex_email_message ex_app
          = ex_app\<lparr>emailsCollected := emailsCollected ex_app @ [''bob@example.org'']\<rparr>"
    by blast
  then have col: "emailsCollected (handleGuestAction ex_app ex_email_message ex_app)
       = [''ann@example.org'', ''bob@example.org'']"
    by (simp add: ex_app_def)
  show ?thesis
    using bad good col len l2 new ex_long_email_fields ex_email_fields by blast
qed


section \<open>Sanitizing text updates\<close>

lemma set_strip_tags: "set (strip_tags s) \<subseteq> set s"
proof (induction s rule: strip_tags.induct)
  case 1
  show ?case by simp
next
  case (2 c cs)
  have tl_sub: "set (tl ys) \<subseteq> set ys" for ys :: string
    by (cases ys) auto
  have "set (dropWhile (\<lambda>d. d \<noteq> CHR ''>'') cs) \<subseteq> set cs"
    by (auto dest: set_dropWhileD)
  with tl_sub [of "dropWhile (\<lambda>d. d \<noteq> CHR ''>'') cs"]
  have sub: "set (tl (dropWhile (\<lambda>d. d \<noteq> CHR ''>'') cs)) \<subseteq> set cs"
    by (rule subset_trans)
  show ?case
  proof (cases "c = CHR ''<'' \<and> CHR ''>'' \<in> set cs")
    case True
    with "2.IH"(1) sub show ?thesis by auto
  next
    case False
    with "2.IH"(2) show ?thesis by auto
  qed
qed

lemma strip_tags_no_tag: "\<not> contains_tag (strip_tags s)"
proof (induction s rule: strip_tags.induct)
  case 1
  show ?case by simp
next
  case (2 c cs)
  show ?case
  proof (cases "c = CHR ''<'' \<and> CHR ''>'' \<in> set cs")
    case True
    with "2.IH"(1) show ?thesis by simp
  next
    case False
    have eq: "strip_tags (c # cs) = c # strip_tags cs"
      using False by auto
    have "\<not> (c = CHR ''<'' \<and> CHR ''>'' \<in> set (strip_tags cs))"
      using False set_strip_tags [of cs] by auto
    with "2.IH"(2) [OF False] show ?thesis unfolding eq by simp
  qed
qed

lemma take_no_tag: "\<not> contains_tag s \<Longrightarrow> \<not> contains_tag (take n s)"
proof (induction s arbitrary: n)
  case Nil
  show ?case by simp
next
  case (Cons c cs)
  show ?case
  proof (cases n)
    case 0
    then show ?thesis by simp
  next
    case (Suc m)
    have "set (take m cs) \<subseteq> set cs" by (rule set_take_subset)
    with Cons Suc show ?thesis by auto
  qed
qed

lemma sanitize_no_tag: "\<not> contains_tag (sanitize v)"
  unfolding sanitize_def by (rule take_no_tag) (rule strip_tags_no_tag)

lemma sanitize_length: "length (sanitize v) \<le> 300"
  by (simp add: sanitize_def)

text \<open>\<open>contains_tag\<close> holds exactly when some substring is a \<open><\<close>, characters
  other than \<open>>\<close>, and a \<open>>\<close>: a match of the regular expression.\<close>

lemma contains_tag_iff:
  "contains_tag s \<longleftrightarrow>
     (\<exists>pre mid post. s = pre @ CHR ''<'' # mid @ CHR ''>'' # post \<and> CHR ''>'' \<notin> set mid)"
proof (induction s)
  case Nil
  show ?case by simp
next
  case (Cons c cs)
  show ?case
  proof
    assume "contains_tag (c # cs)"
    then consider "c = CHR ''<''" "CHR ''>'' \<in> set cs" | "contains_tag cs" by auto
    then show "\<exists>pre mid post. c # cs = pre @ CHR ''<'' # mid @ CHR ''>'' # post \<and> CHR ''>'' \<notin> set mid"
    proof cases
      case 1
      from split_list_first [OF 1(2)] obtain mid post where
        "cs = mid @ CHR ''>'' # post" "CHR ''>'' \<notin> set mid" by blast
      with 1(1) have "c # cs = [] @ CHR ''<'' # mid @ CHR ''>'' # post \<and> CHR ''>'' \<notin> set mid"
        by simp
      then show ?thesis by blast
    next
      case 2
      with Cons.IH obtain pre mid post where
        "cs = pre @ CHR ''<'' # mid @ CHR ''>'' # post" "CHR ''>'' \<notin> set mid" by blast
      then have "c # cs = (c # pre) @ CHR ''<'' # mid @ CHR ''>'' # post \<and> CHR ''>'' \<notin> set mid"
        by simp
      then show ?thesis by blast
    qed
  next
    assume "\<exists>pre mid post. c # cs = pre @ CHR ''<'' # mid @ CHR ''>'' # post \<and> CHR ''>'' \<notin> set mid"
    then obtain pre mid post where
      eq: "c # cs = pre @ CHR ''<'' # mid @ CHR ''>'' # post" and "CHR ''>'' \<notin> set mid" by blast
    show "contains_tag (c # cs)"
    proof (cases pre)
      case Nil
      with eq show ?thesis by auto
    next
      case (Cons p pre')
      with eq have "cs = pre' @ CHR ''<'' # mid @ CHR ''>'' # post" by simp
      with \<open>CHR ''>'' \<notin> set mid\<close> Cons.IH have "contains_tag cs" by blast
      then show ?thesis by simp
    qed
  qed
qed

lemma or_else_simps [simp]: "or_else (Some v) a = Some v" "or_else None a = a"
  by (simp_all add: or_else_def)

lemma js_load_store: "0 \<le> i \<Longrightarrow> js_load (js_store xs i v) i = Some v"
  by (auto simp: js_load_def js_store_def nth_append)

lemma set_js_store: "set (js_store xs i v) \<subseteq> set xs \<union> {Hole, Elem v}"
  by (auto simp: js_store_def dest: set_update_subset_insert [THEN subsetD])

lemma js_load_mem: "js_load xs i = Some obj \<Longrightarrow> Elem obj \<in> set xs"
  by (auto simp: js_load_def split: if_splits slot.splits dest: nth_mem)

lemma js_copy_Elem: "Elem obj \<in> set (js_copy xs) \<longleftrightarrow> Elem obj \<in> set xs"
  by (auto simp: js_copy_def split: slot.splits)

lemma texts_clean_iff:
  "texts_clean xs \<longleftrightarrow> (\<forall>obj. Elem obj \<in> set xs \<longrightarrow> text_clean obj)"
  by (auto simp: texts_clean_def list_all_iff split: slot.splits)

lemma handleUpdateText_layers:
  "s_textLayers (a_session (handleUpdateText index updates st))
     = js_store (js_copy (s_textLayers (a_session st))) index
         (merge_text (case js_load (js_copy (s_textLayers (a_session st))) index of
                        Some obj \<Rightarrow> obj | None \<Rightarrow> no_text_updates)
            (case tu_text updates of
               Some v \<Rightarrow> updates\<lparr>tu_text := Some (sanitize v)\<rparr>
             | None \<Rightarrow> updates))"
  by (simp add: handleUpdateText_def Let_def updateSessionWithHistory_def sendMessage_def)

lemma handleUpdateText_stored:
  assumes t: "tu_text updates = Some v" and i: "0 \<le> index"
  shows "\<exists>obj. js_load (s_textLayers (a_session (handleUpdateText index updates st))) index
                 = Some obj \<and> tu_text obj = Some (sanitize v)"
  using t i by (simp add: handleUpdateText_layers js_load_store merge_text_def)

lemma merged_clean:
  assumes old: "text_clean old"
  shows "text_clean (merge_text old
            (case tu_text updates of
               Some v \<Rightarrow> updates\<lparr>tu_text := Some (sanitize v)\<rparr>
             | None \<Rightarrow> updates))"
proof (cases "tu_text updates")
  case None
  with old show ?thesis by (simp add: text_clean_def merge_text_def)
next
  case (Some v)
  then show ?thesis
    by (simp add: text_clean_def merge_text_def sanitize_no_tag sanitize_length)
qed

lemma handleUpdateText_clean:
  assumes c: "texts_clean (s_textLayers (a_session st))"
  shows "texts_clean (s_textLayers (a_session (handleUpdateText index updates st)))"
proof -
  define copy where "copy = js_copy (s_textLayers (a_session st))"
  define old where "old = (case js_load copy index of
                        Some obj \<Rightarrow> obj | None \<Rightarrow> no_text_updates)"
  define new where "new = merge_text old
            (case tu_text updates of
               Some v \<Rightarrow> updates\<lparr>tu_text := Some (sanitize v)\<rparr>
             | None \<Rightarrow> updates)"
  have cc: "texts_clean copy"
    using c by (simp add: texts_clean_iff copy_def js_copy_Elem)
  have "text_clean old"
  proof (cases "js_load copy index")
    case None
    then show ?thesis by (simp add: old_def text_clean_def no_text_updates_def)
  next
    case (Some obj)
    from js_load_mem [OF Some] cc have "text_clean obj" by (simp add: texts_clean_iff)
    with Some show ?thesis by (simp add: old_def)
  qed
  then have n: "text_clean new" unfolding new_def by (rule merged_clean)
  have eq: "s_textLayers (a_session (handleUpdateText index updates st))
          = js_store copy index new"
    by (simp add: handleUpdateText_layers new_def old_def copy_def)
  show ?thesis
    unfolding eq texts_clean_iff
    using set_js_store [of copy index new] cc n
    by (auto simp: texts_clean_iff)
qed

text \<open>
  Claim C9. Every update applied through \<open>handleUpdateText\<close> that carries a
  \<open>text\<close> field stores, at the index of the update, a text layer whose text is
  the sanitized field: the tags \<open><\<dots>>\<close> removed and the result cut to 300
  characters. The sanitized text contains no substring of tag syntax and has at
  most 300 characters; an update without a \<open>text\<close> field keeps the stored text,
  so a session whose text layers are all clean stays clean under every update.
\<close>

theorem C9_text_update_sanitized:
  "(tu_text updates = Some v \<and> 0 \<le> index \<longrightarrow>
      (\<exists>obj. js_load (s_textLayers (a_session (handleUpdateText index updates st))) index
                = Some obj
              \<and> tu_text obj = Some (sanitize v)))
   \<and> sanitize v = take 300 (strip_tags v)
   \<and> \<not> contains_tag (strip_tags v)
   \<and> \<not> contains_tag (sanitize v)
   \<and> (\<nexists>pre mid post. sanitize v = pre @ CHR ''<'' # mid @ CHR ''>'' # post
                        \<and> CHR ''>'' \<notin> set mid)
   \<and> length (sanitize v) \<le> 300
   \<and> (texts_clean (s_textLayers (a_session st)) \<longrightarrow>
        texts_clean (s_textLayers (a_session (handleUpdateText index updates st))))"
  using handleUpdateText_stored [of updates v index st] sanitize_no_tag [of v]
    strip_tags_no_tag [of v] sanitize_length [of v] handleUpdateText_clean [of st index updates]
    contains_tag_iff [of "sanitize v"]
  by (simp add: sanitize_def)

lemma ex_sanitize: "sanitize ''<b>Hi</b> there <'' = ''Hi there <''"
  by (simp add: sanitize_def)

theorem C9_text_update_sanitized_witness:
  "tu_text ex_text_update = Some ''<b>Hi</b> there <''
   \<and> (0::int) \<le> 0
   \<and> texts_clean (s_textLayers (a_session ex_app))
   \<and> (\<exists>obj. js_load (s_textLayers (a_session (handleUpdateText 0 ex_text_update ex_app))) 0
               = Some obj
             \<and> tu_text obj = Some ''Hi there <'')
   \<and> texts_clean (s_textLayers (a_session (handleUpdateText 0 ex_text_update ex_app)))"
proof -
  have t: "tu_text ex_text_update = Some ''<b>Hi</b> there <''"
    by (simp add: ex_text_update_def no_text_updates_def)
  have c: "texts_clean (s_textLayers (a_session ex_app))"
    by (simp add: ex_app_def ex_session_def texts_clean_def text_clean_def text_obj_of_def
        ex_text_def)
  from C9_text_update_sanitized [of ex_text_update "''<b>Hi</b> there <''" 0 ex_app] t c
  show ?thesis by (simp add: ex_sanitize)
qed


section \<open>Selection overlays and layer deletion\<close>

lemma draw_selection_total: "\<exists>ops. draw_selection ed pc pr cv = Inr ops"
  by (auto simp: draw_selection_def Let_def split: option.splits)

lemma js_nth_invalid: "i < 0 \<or> int (length xs) \<le> i \<Longrightarrow> js_nth xs i = None"
  by (auto simp: js_nth_def)

lemma draw_selection_invalid:
  assumes "selectedLayerIndex ed = - 1
           \<or> selectedLayerIndex ed < 0
           \<or> (selectedLayerType ed = L_photo \<and> int (length (photos ed)) \<le> selectedLayerIndex ed)
           \<or> (selectedLayerType ed = L_sticker \<and> int (length (stickers ed)) \<le> selectedLayerIndex ed)
           \<or> (selectedLayerType ed = L_text \<and> int (length (textLayers ed)) \<le> selectedLayerIndex ed)
           \<or> selectedLayerType ed = L_drawing"
  shows "draw_selection ed pc pr cv = Inr []"
  using assms
  by (auto simp: draw_selection_def Let_def js_nth_invalid)

lemma handleDeleteLayer_index: "a_selectedLayerIndex (handleDeleteLayer cl st) = - 1"
  by (simp add: handleDeleteLayer_def Let_def)

lemma handleDeleteLayer_stickers:
  "a_selectedLayerType cl = L_sticker \<Longrightarrow>
     s_stickers (a_session (handleDeleteLayer cl st))
       = filter_index_ne (a_selectedLayerIndex cl) (s_stickers (a_session cl))"
  by (simp add: handleDeleteLayer_def Let_def updateSessionWithHistory_def sendMessage_def)

lemma handleDeleteLayer_texts:
  "a_selectedLayerType cl = L_text \<Longrightarrow>
     s_textLayers (a_session (handleDeleteLayer cl st))
       = filter_index_ne (a_selectedLayerIndex cl) (s_textLayers (a_session cl))"
  by (simp add: handleDeleteLayer_def Let_def updateSessionWithHistory_def sendMessage_def)

lemma filter_index_from_length: "length (filter_index_from i sel xs) \<le> length xs"
  by (induction i sel xs rule: filter_index_from.induct) auto

lemma filter_index_from_Cons:
  "x \<noteq> Hole \<Longrightarrow> filter_index_from i sel (x # xs) =
     (if int i \<noteq> sel then x # filter_index_from (Suc i) sel xs
      else filter_index_from (Suc i) sel xs)"
  by (cases x) simp_all

lemma filter_index_from_past:
  "list_all (\<lambda>x. x \<noteq> Hole) xs \<Longrightarrow> sel < int j \<Longrightarrow> filter_index_from j sel xs = xs"
proof (induction xs arbitrary: j)
  case Nil
  then show ?case by simp
next
  case (Cons a as)
  from Cons.prems have a: "a \<noteq> Hole" by simp
  from Cons.prems have "list_all (\<lambda>x. x \<noteq> Hole) as" "sel < int (Suc j)" by simp_all
  then have "filter_index_from (Suc j) sel as = as" by (rule Cons.IH)
  with a Cons.prems(2) show ?case by (simp add: filter_index_from_Cons)
qed

lemma filter_index_from_dense:
  "list_all (\<lambda>x. x \<noteq> Hole) xs \<Longrightarrow> int i \<le> sel \<Longrightarrow> sel < int i + int (length xs) \<Longrightarrow>
     filter_index_from i sel xs = take (nat (sel - int i)) xs @ drop (Suc (nat (sel - int i))) xs"
proof (induction xs arbitrary: i)
  case Nil
  then show ?case by simp
next
  case (Cons x xs)
  from Cons.prems(1) have x: "x \<noteq> Hole" and d: "list_all (\<lambda>x. x \<noteq> Hole) xs" by simp_all
  show ?case
  proof (cases "int i = sel")
    case True
    then have "sel < int (Suc i)" by simp
    with d have "filter_index_from (Suc i) sel xs = xs" by (rule filter_index_from_past)
    with True x show ?thesis by (simp add: filter_index_from_Cons)
  next
    case False
    with Cons.prems have lt: "int (Suc i) \<le> sel" by simp
    have n: "nat (sel - int i) = Suc (nat (sel - int (Suc i)))" using lt by simp
    from Cons.prems(3) have "sel < int (Suc i) + int (length xs)" by simp
    with d lt
    have "filter_index_from (Suc i) sel xs
           = take (nat (sel - int (Suc i))) xs @ drop (Suc (nat (sel - int (Suc i)))) xs"
      by (rule Cons.IH)
    with False x show ?thesis unfolding n by (simp add: filter_index_from_Cons)
  qed
qed


text \<open>
  Claim C6. The selection overlays of the preview draw routine never throw, and
  for a selection whose index is \<open>-1\<close>, negative, or past the end of the array of
  the selected layer type (photos, stickers or text layers) they issue no canvas
  operation at all; a drawing selection has no affordances either. Deleting the
  selected layer, the mutation that shrinks the sticker or text array, sets the
  selection index to \<open>-1\<close>, whichever render the instance \<open>cl\<close> of the handler
  belongs to (the delete button calls the current one, the keydown listener
  possibly an older one): the array after the deletion is that of \<open>cl\<close> with the
  slot at the selection index of \<open>cl\<close> filtered out, so it is no longer than the
  array \<open>cl\<close> sees.
\<close>

theorem C6_invalid_selection_safe:
  "(\<exists>ops. draw_selection ed pc pr cv = Inr ops)
   \<and> (selectedLayerIndex ed = - 1
       \<or> selectedLayerIndex ed < 0
       \<or> (selectedLayerType ed = L_photo \<and> int (length (photos ed)) \<le> selectedLayerIndex ed)
       \<or> (selectedLayerType ed = L_sticker \<and> int (length (stickers ed)) \<le> selectedLayerIndex ed)
       \<or> (selectedLayerType ed = L_text \<and> int (length (textLayers ed)) \<le> selectedLayerIndex ed)
       \<or> selectedLayerType ed = L_drawing
      \<longrightarrow> draw_selection ed pc pr cv = Inr [])
   \<and> a_selectedLayerIndex (handleDeleteLayer cl st) = - 1
   \<and> (a_selectedLayerType cl = L_sticker \<longrightarrow>
        s_stickers (a_session (handleDeleteLayer cl st))
          = filter_index_ne (a_selectedLayerIndex cl) (s_stickers (a_session cl))
        \<and> length (s_stickers (a_session (handleDeleteLayer cl st)))
            \<le> length (s_stickers (a_session cl)))
   \<and> (a_selectedLayerType cl = L_text \<longrightarrow>
        s_textLayers (a_session (handleDeleteLayer cl st))
          = filter_index_ne (a_selectedLayerIndex cl) (s_textLayers (a_session cl))
        \<and> length (s_textLayers (a_session (handleDeleteLayer cl st)))
            \<le> length (s_textLayers (a_session cl)))"
  using draw_selection_total [of ed pc pr cv] draw_selection_invalid [of ed pc pr cv]
    handleDeleteLayer_index [of cl st] handleDeleteLayer_stickers [of cl st]
    handleDeleteLayer_texts [of cl st]
    filter_index_from_length [of 0 "a_selectedLayerIndex cl" "s_stickers (a_session cl)"]
    filter_index_from_length [of 0 "a_selectedLayerIndex cl" "s_textLayers (a_session cl)"]
  by (simp add: filter_index_ne_def)

theorem C6_invalid_selection_safe_witness:
  "selectedLayerType ex_stale_editor = L_sticker
   \<and> int (length (stickers ex_stale_editor)) \<le> selectedLayerIndex ex_stale_editor
   \<and> draw_selection ex_stale_editor ''#8b5cf6'' ''139, 92, 246'' ex_canvas = Inr []
   \<and> draw_selection ex_editor ''#8b5cf6'' ''139, 92, 246'' ex_canvas \<noteq> Inr []
   \<and> a_selectedLayerType ex_app = L_text
   \<and> a_selectedLayerIndex ex_app = 0
   \<and> s_textLayers (a_session (handleDeleteLayer ex_app ex_app)) = []
   \<and> a_selectedLayerIndex (handleDeleteLayer ex_app ex_app) = - 1
   \<and> s_textLayers (a_session ex_later_app) \<noteq> []
   \<and> s_textLayers (a_session (handleDeleteLayer ex_app ex_later_app)) = []
   \<and> a_selectedLayerIndex (handleDeleteLayer ex_app ex_later_app) = - 1"
proof -
  have h1: "selectedLayerType ex_stale_editor = L_sticker"
    and h2: "int (length (stickers ex_stale_editor)) \<le> selectedLayerIndex ex_stale_editor"
    by (simp_all add: ex_stale_editor_def ex_editor_def)
  have h3: "a_selectedLayerType ex_app = L_text" and h4: "a_selectedLayerIndex ex_app = 0"
    by (simp_all add: ex_app_def)
  have f: "filter_index_ne (a_selectedLayerIndex ex_app) (s_textLayers (a_session ex_app)) = []"
    by (simp add: filter_index_ne_def ex_app_def ex_session_def)
  have l: "s_textLayers (a_session ex_later_app) \<noteq> []"
    by (simp add: ex_later_app_def)
  have pos: "draw_selection ex_editor ''#8b5cf6'' ''139, 92, 246'' ex_canvas \<noteq> Inr []"
    by (simp add: draw_selection_def ex_editor_def ex_canvas_def ex_sticker_def js_nth_def
        layer_overlay_def Let_def)
  from C6_invalid_selection_safe [of ex_stale_editor "''#8b5cf6''" "''139, 92, 246''" ex_canvas ex_app ex_app] h1 h2 h3
  have "draw_selection ex_stale_editor ''#8b5cf6'' ''139, 92, 246'' ex_canvas = Inr []"
    and "a_selectedLayerIndex (handleDeleteLayer ex_app ex_app) = - 1"
    and "s_textLayers (a_session (handleDeleteLayer ex_app ex_app))
          = filter_index_ne (a_selectedLayerIndex ex_app) (s_textLayers (a_session ex_app))"
    by blast+
  moreover
  from C6_invalid_selection_safe [of ex_stale_editor "''#8b5cf6''" "''139, 92, 246''" ex_canvas ex_app ex_later_app] h3
  have "a_selectedLayerIndex (handleDeleteLayer ex_app ex_later_app) = - 1"
    and "s_textLayers (a_session (handleDeleteLayer ex_app ex_later_app))
          = filter_index_ne (a_selectedLayerIndex ex_app) (s_textLayers (a_session ex_app))"
    by blast+
  ultimately show ?thesis using h1 h2 h3 h4 f l pos by simp
qed


section \<open>Debounced compositor requests\<close>

lemma one_edit: "posted (run [Edit, Advance 150] compositor_idle) = [150]"
  by (simp add: compositor_idle_def run_effect_def run_cleanup_def advance_def fire_def Let_def)

lemma two_edits:
  "posted (run [Edit, Advance 50, Edit, Advance 1000] compositor_idle) = []
   \<and> workerPending (run [Edit, Advance 50, Edit, Advance 1000] compositor_idle)
   \<and> timers (run [Edit, Advance 50, Edit, Advance 1000] compositor_idle) = []"
  by (simp add: compositor_idle_def run_effect_def run_cleanup_def advance_def fire_def Let_def)

lemma stuck_step: "stuck st \<Longrightarrow> e \<noteq> Result \<Longrightarrow> stuck (step e st) \<and> posted (step e st) = posted st"
  by (cases e)
    (auto simp: stuck_def run_effect_def run_cleanup_def advance_def Let_def)

lemma stuck_run:
  "stuck st \<Longrightarrow> Result \<notin> set es \<Longrightarrow> stuck (run es st) \<and> posted (run es st) = posted st"
proof (induction es arbitrary: st)
  case Nil
  then show ?case by simp
next
  case (Cons e es)
  from Cons.prems have "stuck (step e st) \<and> posted (step e st) = posted st"
    by (intro stuck_step) auto
  moreover from Cons.prems have "Result \<notin> set es" by simp
  ultimately show ?case using Cons.IH [of "step e st"] by simp
qed

lemma second_edit_stuck:
  "gap < 150 \<Longrightarrow> stuck (run [Edit, Advance gap, Edit] compositor_idle)
     \<and> posted (run [Edit, Advance gap, Edit] compositor_idle) = []"
  by (simp add: compositor_idle_def run_effect_def run_cleanup_def advance_def fire_def Let_def
      stuck_def)

lemma run_append: "run (es @ fs) st = run fs (run es st)"
  by (induction es arbitrary: st) simp_all

lemma batched_edits_never_post:
  assumes "gap < 150" "Result \<notin> set es"
  shows "posted (run ([Edit, Advance gap, Edit] @ es) compositor_idle) = []"
  using second_edit_stuck [OF assms(1)] stuck_run [OF _ assms(2)]
  by (simp only: run_append)

lemma more_edits_no_result: "Result \<notin> set (more_edits gap n)"
  by (induction n) simp_all


text \<open>
  Claim C1 says that \<open>N\<close> edits within one debounce window are followed by exactly
  one compositor request. The effect does so for \<open>N = 1\<close> only. From the second
  edit on, the cleanup of the first run clears the scheduled timeout and the new
  run returns early, because the first run set \<open>workerPendingRef\<close> when it
  scheduled the request and not when it posted it. So for every \<open>N \<ge> 2\<close> edits,
  each less than 150 ms after the one before, and whatever edits and waiting
  follow (no \<open>RESULT\<close> can arrive, as no request was posted), no request is ever
  posted and the pending flag stays set.
\<close>

theorem C1_batched_edits_post_nothing:
  assumes gap: "gap < 150" and es: "Result \<notin> set es"
  shows "posted (run ([Edit] @ more_edits gap (Suc n) @ es) compositor_idle) = []
       \<and> workerPending (run ([Edit] @ more_edits gap (Suc n) @ es) compositor_idle)
       \<and> posted (run [Edit, Advance 150] compositor_idle) = [150]"
proof -
  have no: "Result \<notin> set (more_edits gap n @ es)"
    using es more_edits_no_result [of gap n] by simp
  have eq: "[Edit] @ more_edits gap (Suc n) @ es
              = [Edit, Advance gap, Edit] @ (more_edits gap n @ es)"
    by simp
  from second_edit_stuck [OF gap] stuck_run [OF _ no]
  have "stuck (run ([Edit, Advance gap, Edit] @ (more_edits gap n @ es)) compositor_idle)
      \<and> posted (run ([Edit, Advance gap, Edit] @ (more_edits gap n @ es)) compositor_idle) = []"
    by (simp only: run_append)
  then show ?thesis
    unfolding eq stuck_def using one_edit by blast
qed

theorem C1_batched_edits_post_nothing_witness:
  "(50::nat) < 150
   \<and> Result \<notin> set [Advance 1000]
   \<and> posted (run [Edit, Advance 50, Edit, Advance 1000] compositor_idle) = []
   \<and> workerPending (run [Edit, Advance 50, Edit, Advance 1000] compositor_idle)
   \<and> posted (run [Edit, Advance 150] compositor_idle) = [150]"
proof -
  have g: "(50::nat) < 150" by simp
  have r: "Result \<notin> set [Advance 1000]" by simp
  have eq: "[Edit] @ more_edits 50 (Suc 0) @ [Advance 1000]
              = [Edit, Advance 50, Edit, Advance 1000]"
    by simp
  from C1_batched_edits_post_nothing [OF g r, of 0]
  show ?thesis using g r unfolding eq by blast
qed

end
